theory Spec2Isabelle
  imports Main
begin

section \<open>mutual-tls: a single-level certificate authority (index.js)\<close>

text \<open>
  The module \<^verbatim>\<open>index.js\<close> exports the class \<^verbatim>\<open>MutualTLS\<close>. It is written against two
  collaborators that are not part of the repository: the library node-forge (RSA, X.509, PEM)
  and the Node platform (\<^verbatim>\<open>Buffer\<close>, \<^verbatim>\<open>Date\<close>, \<^verbatim>\<open>crypto.randomUUID\<close>).

  \<^item> Buffers are objects with identity: the model keeps a store of buffers, a buffer value is
    its address, and \<^verbatim>\<open>Buffer.from\<close> allocates.
  \<^item> Thrown exceptions are values: every function that can throw returns \<open>error + 'a\<close>.
  \<^item> What the collaborators answer during one call (the generated RSA key, the UUID, the two
    readings of the clock, whether forge accepts the certificate, what forge reads back from
    a field it has no regular encoding for) is an explicit argument of that call.
  \<^item> A certificate object in memory and the certificate its PEM holds are two things. The
    object keeps what the module put into it: times in milliseconds, the names as given. The
    PEM holds times in whole seconds and an IP name as four address bytes. The text of a
    PEM is symbolic: it stands for the object forge reads back from it.
  \<^item> A \<^verbatim>\<open>Date\<close> is a time in milliseconds within the bounds of \<^verbatim>\<open>Date\<close>, or the invalid date.
    The numbers of the options are integers; fractions and infinities are left out. The
    characters of a string are 8-bit characters.
\<close>

subsection \<open>Constants of the module\<close>

definition RSA_KEY_SIZE :: int where
  "RSA_KEY_SIZE = 2048"

definition ROOT_COMMON_NAME :: string where
  "ROOT_COMMON_NAME = ''Generic CA''"

definition ROOT_NOT_AFTER :: int where
  "ROOT_NOT_AFTER = 365 * 86400"

definition CERT_NOT_AFTER :: int where
  "CERT_NOT_AFTER = 90 * 86400"

subsection \<open>Errors\<close>

text \<open>
  The module throws \<^verbatim>\<open>new Error(message)\<close> with four messages. \<open>TypeError\<close> is what the
  JavaScript runtime throws by itself (\<^verbatim>\<open>Buffer.from(undefined)\<close>, a property read on
  \<^verbatim>\<open>null\<close>); \<open>ForgeError\<close> is any exception raised inside node-forge, whatever its message.
\<close>

datatype error = Error string | TypeError | ForgeError

subsection \<open>Certificates, keys and PEM text\<close>

record rsa_public =
  pub_n :: nat
  pub_e :: nat

record rsa_private =
  priv_n :: nat
  priv_e :: nat
  priv_d :: nat

text \<open>An attribute object \<^verbatim>\<open>{ name, value }\<close>; the value \<open>None\<close> is \<^verbatim>\<open>undefined\<close>.\<close>

record attribute =
  attr_name :: string
  attr_value :: "string option"

text \<open>The two shapes of entry that \<^verbatim>\<open>getAltName\<close> builds: \<^verbatim>\<open>{ type, ip }\<close> and \<^verbatim>\<open>{ type, value }\<close>.\<close>

datatype altName = TypeIp nat string | TypeValue nat string

datatype extension =
  basicConstraints (cA: bool)
| keyUsage (keyCertSign: bool) (digitalSignature: bool) (nonRepudiation: bool)
    (keyEncipherment: bool) (dataEncipherment: bool)
| extKeyUsage (serverAuth: bool) (clientAuth: bool) (codeSigning: bool)
    (emailProtection: bool) (timeStamping: bool)
| nsCertType (client: bool) (server: bool) (email: bool) (objsign: bool)
    (sslCA: bool) (emailCA: bool) (objCA: bool)
| subjectKeyIdentifier
| subjectAltName (altNames: "altName list")

text \<open>
  A \<^verbatim>\<open>Date\<close> object: a time value in milliseconds since the epoch, or the invalid date.
  \<^verbatim>\<open>new Date(t)\<close> is invalid when \<open>t\<close> is beyond 8.64e15 milliseconds on either side.
\<close>

datatype date = Date int | InvalidDate

definition new_Date :: "int \<Rightarrow> date" where
  "new_Date t =
     (if - 8640000000000000 \<le> t \<and> t \<le> 8640000000000000 then Date t else InvalidDate)"


text \<open>The fields of a certificate object that the module sets.\<close>

record tbsCertificate =
  publicKey :: rsa_public
  serialNumber :: string
  notBefore :: date
  notAfter :: date
  subject :: "attribute list"
  issuer :: "attribute list"
  extensions :: "extension list"

text \<open>
  The bytes that are signed: the encoding of the fields. It stands for the fields forge reads
  back from it, or, when forge cannot read it, for the fields it was written from.
\<close>

datatype der = Der tbsCertificate | Garbled tbsCertificate

datatype signature = RSA_SHA256 rsa_private der

record certificate = tbsCertificate +
  signature :: signature

text \<open>
  The text of a PEM: some other text, the PEM of a public key, of a private key, or of a
  certificate. \<open>CertificatePem c\<close> is the PEM from which forge reads the certificate object
  \<open>c\<close>; \<open>UnreadableCertificatePem c\<close> is what forge wrote for the object \<open>c\<close> when it cannot
  read it back.
\<close>

datatype pem_text =
  Plain string
| PublicKeyPem rsa_public
| PrivateKeyPem rsa_private
| CertificatePem certificate
| UnreadableCertificatePem certificate

subsection \<open>Buffers\<close>

text \<open>
  The store of all buffers allocated so far; the address of a buffer is its index. A fresh
  buffer gets the next index, so it is distinct from every buffer that exists.
\<close>

type_synonym addr = nat
type_synonym heap = "pem_text list"

definition Buffer_read :: "heap \<Rightarrow> addr \<Rightarrow> pem_text" where
  "Buffer_read h a = h ! a"

text \<open>A caller overwriting the contents of a buffer it holds (\<^verbatim>\<open>buf.fill\<close>, \<^verbatim>\<open>buf.write\<close>).\<close>

definition Buffer_write :: "heap \<Rightarrow> addr \<Rightarrow> pem_text \<Rightarrow> heap" where
  "Buffer_write h a t = h[a := t]"

text \<open>
  A value passed where the module expects a key or a certificate: \<^verbatim>\<open>undefined\<close>, a string,
  or a buffer.
\<close>

datatype jsval = Undefined | Str pem_text | Buf addr

text \<open>JavaScript truthiness: \<^verbatim>\<open>undefined\<close> and the empty string are falsy, an object never is.\<close>

fun truthy :: "jsval \<Rightarrow> bool" where
  "truthy Undefined = False"
| "truthy (Str t) = (t \<noteq> Plain [])"
| "truthy (Buf a) = True"

text \<open>
  \<^verbatim>\<open>Buffer.from(x)\<close>: a new buffer holding the text of a string or a copy of the contents of a
  buffer; a \<^verbatim>\<open>TypeError\<close> for \<^verbatim>\<open>undefined\<close>.
\<close>

fun Buffer_from :: "jsval \<Rightarrow> heap \<Rightarrow> error + (addr \<times> heap)" where
  "Buffer_from Undefined h = Inl TypeError"
| "Buffer_from (Str t) h = Inr (length h, h @ [t])"
| "Buffer_from (Buf a) h = Inr (length h, h @ [Buffer_read h a])"

text \<open>
  The text forge sees when it is handed a value: forge matches a regular expression against
  its argument, which converts a buffer to its contents and \<^verbatim>\<open>undefined\<close> to the string
  "undefined".
\<close>

fun toString :: "heap \<Rightarrow> jsval \<Rightarrow> pem_text" where
  "toString h Undefined = Plain ''undefined''"
| "toString h (Str t) = t"
| "toString h (Buf a) = Buffer_read h a"

subsection \<open>What the collaborators answer during one call\<close>

text \<open>
  \<open>rsa_generateKeyPair\<close> is the outcome of \<^verbatim>\<open>forge.pki.rsa.generateKeyPair(bits)\<close> for each
  requested size (\<open>None\<close> when forge throws, or the private key whose modulus and exponent
  also make the public key); \<open>randomUUID\<close> is what \<^verbatim>\<open>crypto.randomUUID()\<close> returns;
  \<open>now_first\<close> and \<open>now_second\<close> are the two successive readings of \<^verbatim>\<open>Date.now()\<close>.

  forge can refuse a certificate for reasons that lie in its encoders: \<^verbatim>\<open>cert.setExtensions\<close>
  throws for an \<^verbatim>\<open>ip\<close> entry that is not an address, \<^verbatim>\<open>cert.sign\<close> for a key too short for the
  digest. \<open>setExtensions_throws\<close> and \<open>sign_throws\<close> tell, for each argument, whether the
  call throws.

  forge writes some values in a form from which it does not read the same value back, or
  reads nothing back at all: a time outside the years 1950 to 9999, a serial number that is
  not an even number of hexadecimal digits, an alternative name other than a DNS name or an
  IPv4 address of four bytes. What it reads back then is left open: \<open>odd_time\<close>,
  \<open>odd_serialNumber\<close> and \<open>odd_altName\<close> give it for each such value, \<open>odd_altName\<close> with
  \<open>None\<close> when the PEM cannot be read at all.
\<close>

record platform =
  rsa_generateKeyPair :: "int \<Rightarrow> rsa_private option"
  randomUUID :: string
  now_first :: int
  now_second :: int
  setExtensions_throws :: "extension list \<Rightarrow> bool"
  sign_throws :: "rsa_private \<Rightarrow> tbsCertificate \<Rightarrow> bool"
  odd_time :: "date \<Rightarrow> date"
  odd_serialNumber :: "string \<Rightarrow> string"
  odd_altName :: "altName \<Rightarrow> altName option"

subsection \<open>node-forge: keys and attributes\<close>

definition forge_publicKeyToPem :: "rsa_public \<Rightarrow> pem_text" where
  "forge_publicKeyToPem k = PublicKeyPem k"

definition forge_privateKeyToPem :: "rsa_private \<Rightarrow> pem_text" where
  "forge_privateKeyToPem k = PrivateKeyPem k"

fun forge_publicKeyFromPem :: "pem_text \<Rightarrow> error + rsa_public" where
  "forge_publicKeyFromPem (PublicKeyPem k) = Inr k"
| "forge_publicKeyFromPem _ = Inl ForgeError"

fun forge_privateKeyFromPem :: "pem_text \<Rightarrow> error + rsa_private" where
  "forge_privateKeyFromPem (PrivateKeyPem k) = Inr k"
| "forge_privateKeyFromPem _ = Inl ForgeError"

text \<open>\<^verbatim>\<open>forge.pki.rsa.setPublicKey(n, e)\<close>.\<close>

definition forge_setPublicKey :: "nat \<Rightarrow> nat \<Rightarrow> rsa_public" where
  "forge_setPublicKey modulus exponent = \<lparr>pub_n = modulus, pub_e = exponent\<rparr>"

text \<open>
  \<^verbatim>\<open>cert.setSubject(attrs)\<close> and \<^verbatim>\<open>cert.setIssuer(attrs)\<close> store the attributes they are given,
  after a check that throws ("Attribute value not specified.") for an attribute whose value
  is \<^verbatim>\<open>undefined\<close>.
\<close>

definition forge_setAttributes :: "attribute list \<Rightarrow> error + attribute list" where
  "forge_setAttributes attrs =
     (if list_all (\<lambda>a. attr_value a \<noteq> None) attrs then Inr attrs
      else Inl ForgeError)"

subsection \<open>node-forge: what a certificate's PEM holds\<close>

text \<open>
  A time is written as year, month, day, hour, minute and second, without the milliseconds,
  with a four-digit year (a two-digit year from 1950 to 2049) and is read back from these:
  for a time from 1950-01-01 to 9999-12-31 what is read back is the time cut to the whole
  second.
\<close>

fun written_in_full :: "date \<Rightarrow> bool" where
  "written_in_full (Date t) = (- 631152000000 \<le> t \<and> t < 253402300800000)"
| "written_in_full InvalidDate = False"

definition read_back_time :: "platform \<Rightarrow> date \<Rightarrow> date" where
  "read_back_time env d =
     (case d of
        Date t \<Rightarrow> if written_in_full d then Date (t div 1000 * 1000) else odd_time env d
      | InvalidDate \<Rightarrow> odd_time env d)"

text \<open>
  The serial number is written as the bytes its hexadecimal digits denote and read back as
  the hexadecimal digits of these bytes.
\<close>

definition is_hex_digit :: "char \<Rightarrow> bool" where
  "is_hex_digit c = (c \<in> set ''0123456789abcdef'')"

definition read_back_serialNumber :: "platform \<Rightarrow> string \<Rightarrow> string" where
  "read_back_serialNumber env s =
     (if s \<noteq> [] \<and> even (length s) \<and> list_all is_hex_digit s then s
      else odd_serialNumber env s)"

text \<open>
  An entry \<^verbatim>\<open>{ type: 7, ip }\<close> is written as the bytes of the address:
  \<^verbatim>\<open>ip.split('.')\<close> must give four parts and \<^verbatim>\<open>parseInt(part, 10)\<close> of each part is a byte.
  It is read back as \<^verbatim>\<open>bytes.join('.')\<close>, the bytes in decimal. An entry \<^verbatim>\<open>{ type: 2, value }\<close>
  is written and read back as it is.
\<close>

fun split_dots :: "string \<Rightarrow> string list" where
  "split_dots [] = [] # []"
| "split_dots (c # cs) =
     (if c = CHR ''.'' then [] # split_dots cs
      else (case split_dots cs of [] \<Rightarrow> [c] # [] | part # parts \<Rightarrow> (c # part) # parts))"

definition is_digit :: "char \<Rightarrow> bool" where
  "is_digit c = (c \<in> set ''0123456789'')"

definition digit_value :: "char \<Rightarrow> nat" where
  "digit_value c = of_char c - 48"

definition parseInt :: "string \<Rightarrow> nat" where
  "parseInt part = foldl (\<lambda>acc c. 10 * acc + digit_value c) 0 part"

definition is_byte :: "string \<Rightarrow> bool" where
  "is_byte part = (part \<noteq> [] \<and> list_all is_digit part \<and> parseInt part \<le> 255)"

definition is_IPv4 :: "string \<Rightarrow> bool" where
  "is_IPv4 ip = (length (split_dots ip) = 4 \<and> list_all is_byte (split_dots ip))"

definition digit_char :: "nat \<Rightarrow> char" where
  "digit_char k = ''0123456789'' ! k"

function decimal :: "nat \<Rightarrow> string" where
  "decimal k = (if k < 10 then [digit_char k] else decimal (k div 10) @ [digit_char (k mod 10)])"
  by pat_completeness auto
termination
  by (relation "measure id") auto

declare decimal.simps [simp del]

fun join_dots :: "string list \<Rightarrow> string" where
  "join_dots [] = []"
| "join_dots [part] = part"
| "join_dots (part # parts) = part @ CHR ''.'' # join_dots parts"

definition bytesToIP :: "nat list \<Rightarrow> string" where
  "bytesToIP bytes = join_dots (map decimal bytes)"

definition read_back_altName :: "platform \<Rightarrow> altName \<Rightarrow> altName option" where
  "read_back_altName env a =
     (case a of
        TypeIp t ip \<Rightarrow>
          if t = 7 \<and> is_IPv4 ip then Some (TypeIp 7 (bytesToIP (map parseInt (split_dots ip))))
          else odd_altName env a
      | TypeValue t v \<Rightarrow> if t = 2 then Some (TypeValue 2 v) else odd_altName env a)"

definition read_back_extension :: "platform \<Rightarrow> extension \<Rightarrow> extension option" where
  "read_back_extension env x =
     (case x of
        subjectAltName entries \<Rightarrow>
          map_option subjectAltName (those (map (read_back_altName env) entries))
      | _ \<Rightarrow> Some x)"

text \<open>
  The fields forge reads back from what it writes for the fields of a certificate object;
  \<open>None\<close> when it cannot read what it wrote. Key, subject and issuer are read back as they
  are.
\<close>

definition read_back_tbs :: "platform \<Rightarrow> tbsCertificate \<Rightarrow> tbsCertificate option" where
  "read_back_tbs env tbs =
     (case those (map (read_back_extension env) (extensions tbs)) of
        None \<Rightarrow> None
      | Some exts \<Rightarrow>
          Some \<lparr>publicKey = publicKey tbs,
                serialNumber = read_back_serialNumber env (serialNumber tbs),
                notBefore = read_back_time env (notBefore tbs),
                notAfter = read_back_time env (notAfter tbs),
                subject = subject tbs,
                issuer = issuer tbs,
                extensions = exts\<rparr>)"

definition forge_toDer :: "platform \<Rightarrow> tbsCertificate \<Rightarrow> der" where
  "forge_toDer env tbs = (case read_back_tbs env tbs of None \<Rightarrow> Garbled tbs | Some t \<Rightarrow> Der t)"

text \<open>
  \<^verbatim>\<open>cert.sign(key, forge.md.sha256.create())\<close>: the certificate object gets the signature over
  the encoding of its fields.
\<close>

definition forge_sign :: "platform \<Rightarrow> rsa_private \<Rightarrow> tbsCertificate \<Rightarrow> certificate" where
  "forge_sign env key tbs =
     tbsCertificate.extend tbs \<lparr>signature = RSA_SHA256 key (forge_toDer env tbs)\<rparr>"

text \<open>
  \<^verbatim>\<open>forge.pki.certificateToPem(cert)\<close> writes the fields and the signature; the text stands
  for the certificate object forge reads back from it.
\<close>

definition forge_certificateToPem :: "platform \<Rightarrow> certificate \<Rightarrow> pem_text" where
  "forge_certificateToPem env c =
     (case read_back_tbs env (tbsCertificate.truncate c) of
        None \<Rightarrow> UnreadableCertificatePem c
      | Some t \<Rightarrow> CertificatePem (tbsCertificate.extend t \<lparr>signature = signature c\<rparr>))"

fun forge_certificateFromPem :: "pem_text \<Rightarrow> error + certificate" where
  "forge_certificateFromPem (CertificatePem c) = Inr c"
| "forge_certificateFromPem _ = Inl ForgeError"

text \<open>
  \<^verbatim>\<open>issuer.verify(cert)\<close> with the issuer's public key: the signature is by the matching
  private key, over the encoding of the fields of the certificate (which forge computes
  again from the certificate object).
\<close>

fun forge_verify :: "platform \<Rightarrow> rsa_public \<Rightarrow> certificate \<Rightarrow> bool" where
  "forge_verify env pk c =
     (case signature c of RSA_SHA256 key bytes \<Rightarrow>
        forge_setPublicKey (priv_n key) (priv_e key) = pk \<and>
        bytes = forge_toDer env (tbsCertificate.truncate c))"

subsection \<open>Serial numbers\<close>

text \<open>\<^verbatim>\<open>crypto.randomUUID().replace(/-/g, '')\<close>: every hyphen of the UUID is removed.\<close>

definition generateSerialNumber :: "platform \<Rightarrow> string" where
  "generateSerialNumber env = filter (\<lambda>c. c \<noteq> CHR ''-'') (randomUUID env)"

text \<open>
  The format of a UUID as \<^verbatim>\<open>crypto.randomUUID\<close> documents it (RFC 4122): 36 characters, five
  groups of 8, 4, 4, 4 and 12 lower-case hexadecimal digits separated by hyphens.
\<close>

definition is_uuid :: "string \<Rightarrow> bool" where
  "is_uuid u =
     (length u = 36 \<and> u ! 8 = CHR ''-'' \<and> u ! 13 = CHR ''-'' \<and> u ! 18 = CHR ''-'' \<and>
      u ! 23 = CHR ''-'' \<and>
      list_all is_hex_digit (take 8 u) \<and> list_all is_hex_digit (take 4 (drop 9 u)) \<and>
      list_all is_hex_digit (take 4 (drop 14 u)) \<and> list_all is_hex_digit (take 4 (drop 19 u)) \<and>
      list_all is_hex_digit (drop 24 u))"

text \<open>The number a string of hexadecimal digits denotes.\<close>

definition hex_digit_value :: "char \<Rightarrow> nat" where
  "hex_digit_value c =
     (let k = (of_char c :: nat) in if 48 \<le> k \<and> k \<le> 57 then k - 48 else k - 87)"

definition hex_value :: "string \<Rightarrow> nat" where
  "hex_value s = foldl (\<lambda>acc c. 16 * acc + hex_digit_value c) 0 s"

subsection \<open>Key pairs\<close>

text \<open>A key pair object \<^verbatim>\<open>{ publicKey, privateKey }\<close> of two buffers.\<close>

record keyPair =
  kp_publicKey :: addr
  kp_privateKey :: addr

text \<open>
  \<^verbatim>\<open>generateKeyPair(bits)\<close>: the key pair forge generates, each half written as PEM into a
  new buffer, the public key first.
\<close>

definition generateKeyPair :: "platform \<Rightarrow> int \<Rightarrow> heap \<Rightarrow> error + (keyPair \<times> heap)" where
  "generateKeyPair env bits h =
     (case rsa_generateKeyPair env bits of
        None \<Rightarrow> Inl ForgeError
      | Some key \<Rightarrow>
          (case Buffer_from (Str (forge_publicKeyToPem
                   (forge_setPublicKey (priv_n key) (priv_e key)))) h of
             Inl err \<Rightarrow> Inl err
           | Inr (pub, h1) \<Rightarrow>
               (case Buffer_from (Str (forge_privateKeyToPem key)) h1 of
                  Inl err \<Rightarrow> Inl err
                | Inr (priv, h2) \<Rightarrow>
                    Inr (\<lparr>kp_publicKey = pub, kp_privateKey = priv\<rparr>, h2))))"

text \<open>
  \<^verbatim>\<open>privateToPublicKey(privateKey)\<close>: parse the private key, rebuild the public key from its
  modulus and exponent, and return its PEM in a new buffer.
\<close>

definition privateToPublicKey :: "jsval \<Rightarrow> heap \<Rightarrow> error + (addr \<times> heap)" where
  "privateToPublicKey privateKey h =
     (case forge_privateKeyFromPem (toString h privateKey) of
        Inl err \<Rightarrow> Inl err
      | Inr pk \<Rightarrow>
          Buffer_from (Str (forge_publicKeyToPem
            (forge_setPublicKey (priv_n pk) (priv_e pk)))) h)"

text \<open>
  The argument of \<^verbatim>\<open>from\<close>: an object with the optional properties \<^verbatim>\<open>ca\<close>, \<^verbatim>\<open>key\<close>,
  \<^verbatim>\<open>publicKey\<close> and \<^verbatim>\<open>keyPair\<close> (itself an object with \<^verbatim>\<open>publicKey\<close> and \<^verbatim>\<open>privateKey\<close>).
\<close>

record root =
  root_ca :: jsval
  root_key :: jsval
  root_publicKey :: jsval
  root_keyPair :: "(jsval \<times> jsval) option"

text \<open>
  \<^verbatim>\<open>toKeyPair(root)\<close>. Properties of an object literal are evaluated in order, so the public
  key buffer is allocated before the private key buffer.
\<close>

definition toKeyPair :: "root \<Rightarrow> heap \<Rightarrow> error + (keyPair \<times> heap)" where
  "toKeyPair r h =
     (case root_keyPair r of
        Some (publicKey_given, privateKey_given) \<Rightarrow>
          (case Buffer_from publicKey_given h of
             Inl err \<Rightarrow> Inl err
           | Inr (pub, h1) \<Rightarrow>
               (case Buffer_from privateKey_given h1 of
                  Inl err \<Rightarrow> Inl err
                | Inr (priv, h2) \<Rightarrow>
                    Inr (\<lparr>kp_publicKey = pub, kp_privateKey = priv\<rparr>, h2)))
      | None \<Rightarrow>
          if truthy (root_key r) then
            (case (if truthy (root_publicKey r) then Inr (root_publicKey r, h)
                   else (case privateToPublicKey (root_key r) h of
                           Inl err \<Rightarrow> Inl err
                         | Inr (derived, h0) \<Rightarrow> Inr (Buf derived, h0))) of
               Inl err \<Rightarrow> Inl err
             | Inr (publicKey_value, h0) \<Rightarrow>
                 (case Buffer_from publicKey_value h0 of
                    Inl err \<Rightarrow> Inl err
                  | Inr (pub, h1) \<Rightarrow>
                      (case Buffer_from (root_key r) h1 of
                         Inl err \<Rightarrow> Inl err
                       | Inr (priv, h2) \<Rightarrow>
                           Inr (\<lparr>kp_publicKey = pub, kp_privateKey = priv\<rparr>, h2))))
          else Inl (Error ''Could not get key pair''))"

subsection \<open>Attributes and extensions\<close>

definition defaultAttributes :: "string option \<Rightarrow> attribute list" where
  "defaultAttributes commonName = [\<lparr>attr_name = ''commonName'', attr_value = commonName\<rparr>]"

definition defaultExtensionsRoot :: "extension list" where
  "defaultExtensionsRoot =
     [basicConstraints True,
      keyUsage True True True True True,
      extKeyUsage True True True True True,
      nsCertType True True True True True True True,
      subjectKeyIdentifier]"

definition ALTNAME_TYPE_DNS :: nat where
  "ALTNAME_TYPE_DNS = 2"

definition ALTNAME_TYPE_IP :: nat where
  "ALTNAME_TYPE_IP = 7"

text \<open>
  \<^verbatim>\<open>name.match(/^[\d.]+$/)\<close>: the whole string is one or more characters, each a decimal
  digit or a dot.
\<close>

definition is_digit_or_dot :: "char \<Rightarrow> bool" where
  "is_digit_or_dot c = (c \<in> set ''0123456789.'')"

definition matches_digits_and_dots :: "string \<Rightarrow> bool" where
  "matches_digits_and_dots name = (name \<noteq> [] \<and> list_all is_digit_or_dot name)"

definition getAltName :: "string \<Rightarrow> altName" where
  "getAltName name =
     (if matches_digits_and_dots name then TypeIp ALTNAME_TYPE_IP name
      else TypeValue ALTNAME_TYPE_DNS name)"

definition defaultExtensionsCert :: "string list \<Rightarrow> extension list" where
  "defaultExtensionsCert names =
     [basicConstraints False,
      keyUsage False True False True True,
      extKeyUsage True True False False False,
      nsCertType True True False False False False False,
      subjectKeyIdentifier,
      subjectAltName (map getAltName names)]"

subsection \<open>The class MutualTLS\<close>

text \<open>
  A property of the options object: not set, a falsy value that is not of the expected type
  (\<^verbatim>\<open>null\<close>, \<^verbatim>\<open>false\<close>, \<^verbatim>\<open>NaN\<close>, \<^verbatim>\<open>0n\<close>, \<^verbatim>\<open>''\<close>), or a value of the expected type: an
  integer for \<^verbatim>\<open>bits\<close> and \<^verbatim>\<open>expiry\<close>, a string for \<^verbatim>\<open>name\<close>.
\<close>

datatype 'a property = Absent | JsNull | JsFalse | JsNaN | JsBigIntZero | JsEmptyString | Given 'a

record options =
  opt_name :: "string property"
  opt_bits :: "int property"
  opt_expiry :: "int property"

definition no_options :: options where
  "no_options = \<lparr>opt_name = Absent, opt_bits = Absent, opt_expiry = Absent\<rparr>"

text \<open>
  \<^verbatim>\<open>a || b\<close> is \<^verbatim>\<open>b\<close> when \<^verbatim>\<open>a\<close> is falsy and \<^verbatim>\<open>a\<close> otherwise. Of the numbers 0 is falsy, of the
  strings the empty one.
\<close>

definition or_number :: "int property \<Rightarrow> int \<Rightarrow> int" where
  "or_number a b = (case a of Given v \<Rightarrow> if v = 0 then b else v | _ \<Rightarrow> b)"

definition or_string :: "string property \<Rightarrow> string \<Rightarrow> string" where
  "or_string a b = (case a of Given v \<Rightarrow> if v = [] then b else v | _ \<Rightarrow> b)"

text \<open>The instance: \<^verbatim>\<open>this._keyPair\<close>, \<^verbatim>\<open>this._cert\<close>, \<^verbatim>\<open>this._pem\<close>.\<close>

record MutualTLS =
  this_keyPair :: keyPair
  this_cert :: certificate
  this_pem :: addr

definition createCA :: "options \<Rightarrow> platform \<Rightarrow> heap \<Rightarrow> error + (MutualTLS \<times> heap)" where
  "createCA opts env h =
     (case generateKeyPair env (or_number (opt_bits opts) RSA_KEY_SIZE) h of
        Inl err \<Rightarrow> Inl err
      | Inr (keyPair, h1) \<Rightarrow>
          let attributes = defaultAttributes (Some (or_string (opt_name opts) ROOT_COMMON_NAME));
              extensions_root = defaultExtensionsRoot
          in
          (case forge_publicKeyFromPem (Buffer_read h1 (kp_publicKey keyPair)) of
             Inl err \<Rightarrow> Inl err
           | Inr cert_publicKey \<Rightarrow>
               let cert_serialNumber = generateSerialNumber env;
                   cert_notBefore = new_Date (now_first env - 86400 * 1000);
                   cert_notAfter =
                     new_Date (now_second env + or_number (opt_expiry opts) ROOT_NOT_AFTER * 1000)
               in
               (case forge_setAttributes attributes of
                  Inl err \<Rightarrow> Inl err
                | Inr cert_subject \<Rightarrow>
                    (case forge_setAttributes attributes of
                       Inl err \<Rightarrow> Inl err
                     | Inr cert_issuer \<Rightarrow>
                         if setExtensions_throws env extensions_root then Inl ForgeError
                         else
                           (case forge_privateKeyFromPem
                                   (Buffer_read h1 (kp_privateKey keyPair)) of
                              Inl err \<Rightarrow> Inl err
                            | Inr signing_key \<Rightarrow>
                                let tbs =
                                      \<lparr>publicKey = cert_publicKey,
                                       serialNumber = cert_serialNumber,
                                       notBefore = cert_notBefore,
                                       notAfter = cert_notAfter,
                                       subject = cert_subject,
                                       issuer = cert_issuer,
                                       extensions = extensions_root\<rparr>
                                in
                                if sign_throws env signing_key tbs then Inl ForgeError
                                else
                                  let cert = forge_sign env signing_key tbs in
                                  (case Buffer_from (Str (forge_certificateToPem env cert)) h1 of
                                     Inl err \<Rightarrow> Inl err
                                   | Inr (pem, h2) \<Rightarrow>
                                       Inr (\<lparr>this_keyPair = keyPair, this_cert = cert,
                                             this_pem = pem\<rparr>, h2)))))))"

definition loadCA :: "root \<Rightarrow> platform \<Rightarrow> heap \<Rightarrow> error + (MutualTLS \<times> heap)" where
  "loadCA r env h =
     (if \<not> truthy (root_ca r) then Inl (Error ''Missing certificate'')
      else if root_keyPair r = None \<and> \<not> truthy (root_key r)
        then Inl (Error ''Missing key pair or private key'')
      else
        (case toKeyPair r h of
           Inl err \<Rightarrow> Inl err
         | Inr (keyPair, h1) \<Rightarrow>
             (case forge_certificateFromPem (toString h1 (root_ca r)) of
                Inl err \<Rightarrow> Inl err
              | Inr cert \<Rightarrow>
                  (case Buffer_from (Str (forge_certificateToPem env cert)) h1 of
                     Inl err \<Rightarrow> Inl err
                   | Inr (pem, h2) \<Rightarrow>
                       Inr (\<lparr>this_keyPair = keyPair, this_cert = cert,
                             this_pem = pem\<rparr>, h2)))))"

text \<open>
  \<^verbatim>\<open>constructor (opts = {}, root)\<close>. The root is \<open>None\<close> when the argument is missing (any
  object is truthy). The options are \<open>None\<close> when the argument is \<^verbatim>\<open>null\<close>, for which the
  default \<^verbatim>\<open>{}\<close> does not apply and the first property read throws; \<^verbatim>\<open>new MutualTLS()\<close> is
  \<open>constructor (Some no_options) None\<close>.
\<close>

definition constructor ::
  "options option \<Rightarrow> root option \<Rightarrow> platform \<Rightarrow> heap \<Rightarrow> error + (MutualTLS \<times> heap)" where
  "constructor opts r env h =
     (case r of
        None \<Rightarrow> (case opts of None \<Rightarrow> Inl TypeError | Some given \<Rightarrow> createCA given env h)
      | Some given_root \<Rightarrow> loadCA given_root env h)"

text \<open>\<^verbatim>\<open>static from (root) { return new this(null, root) }\<close>\<close>

definition from_root :: "root option \<Rightarrow> platform \<Rightarrow> heap \<Rightarrow> error + (MutualTLS \<times> heap)" where
  "from_root r env h = constructor None r env h"

text \<open>The accessors \<^verbatim>\<open>get key ()\<close> and \<^verbatim>\<open>get ca ()\<close>.\<close>

definition get_key :: "MutualTLS \<Rightarrow> addr" where
  "get_key this = kp_privateKey (this_keyPair this)"

definition get_ca :: "MutualTLS \<Rightarrow> addr" where
  "get_ca this = this_pem this"

text \<open>
  The first argument of \<^verbatim>\<open>authorize\<close>: missing, a string, or an array of strings. Only a
  missing argument and the empty string are falsy; an array, also the empty one, is an object.
\<close>

datatype names = NoName | OneName string | ManyNames "string list"

fun truthy_names :: "names \<Rightarrow> bool" where
  "truthy_names NoName = False"
| "truthy_names (OneName s) = (s \<noteq> [])"
| "truthy_names (ManyNames xs) = True"

text \<open>\<^verbatim>\<open>if (typeof name === 'string') name = [name]\<close>\<close>

fun as_array :: "names \<Rightarrow> string list" where
  "as_array NoName = []"
| "as_array (OneName s) = [s]"
| "as_array (ManyNames xs) = xs"

text \<open>\<^verbatim>\<open>name[0]\<close>, which is \<^verbatim>\<open>undefined\<close> for the empty array.\<close>

fun first_element :: "string list \<Rightarrow> string option" where
  "first_element [] = None"
| "first_element (x # xs) = Some x"

text \<open>The result \<^verbatim>\<open>{ key, cert }\<close> of \<^verbatim>\<open>authorize\<close>.\<close>

record issued =
  issued_key :: addr
  issued_cert :: addr

definition authorize ::
  "MutualTLS \<Rightarrow> names \<Rightarrow> options \<Rightarrow> platform \<Rightarrow> heap \<Rightarrow> error + (issued \<times> heap)" where
  "authorize this name opts env h =
     (if \<not> truthy_names name then Inl (Error ''Common name is required'')
      else
        let name_array = as_array name in
        (case generateKeyPair env (or_number (opt_bits opts) RSA_KEY_SIZE) h of
           Inl err \<Rightarrow> Inl err
         | Inr (keyPair, h1) \<Rightarrow>
             (case forge_publicKeyFromPem (Buffer_read h1 (kp_publicKey keyPair)) of
                Inl err \<Rightarrow> Inl err
              | Inr cert_publicKey \<Rightarrow>
                  let cert_serialNumber = generateSerialNumber env;
                      cert_notBefore = new_Date (now_first env - 86400 * 1000);
                      cert_notAfter =
                        new_Date
                          (now_second env + or_number (opt_expiry opts) CERT_NOT_AFTER * 1000);
                      attributes = defaultAttributes (first_element name_array);
                      issuer_attributes = issuer (this_cert this);
                      extensions_cert = defaultExtensionsCert name_array
                  in
                  (case forge_setAttributes attributes of
                     Inl err \<Rightarrow> Inl err
                   | Inr cert_subject \<Rightarrow>
                       (case forge_setAttributes issuer_attributes of
                          Inl err \<Rightarrow> Inl err
                        | Inr cert_issuer \<Rightarrow>
                            if setExtensions_throws env extensions_cert then Inl ForgeError
                            else
                              (case forge_privateKeyFromPem
                                      (Buffer_read h1 (kp_privateKey (this_keyPair this))) of
                                 Inl err \<Rightarrow> Inl err
                               | Inr signing_key \<Rightarrow>
                                   let tbs =
                                         \<lparr>publicKey = cert_publicKey,
                                          serialNumber = cert_serialNumber,
                                          notBefore = cert_notBefore,
                                          notAfter = cert_notAfter,
                                          subject = cert_subject,
                                          issuer = cert_issuer,
                                          extensions = extensions_cert\<rparr>
                                   in
                                   if sign_throws env signing_key tbs then Inl ForgeError
                                   else
                                     let cert = forge_sign env signing_key tbs in
                                     (case Buffer_from (Str (forge_certificateToPem env cert)) h1 of
                                        Inl err \<Rightarrow> Inl err
                                      | Inr (pem, h2) \<Rightarrow>
                                          Inr (\<lparr>issued_key = kp_privateKey keyPair,
                                                issued_cert = pem\<rparr>, h2))))))))"

text \<open>The static utilities \<^verbatim>\<open>keyPair\<close>, \<^verbatim>\<open>serialNumber\<close> and \<^verbatim>\<open>toPublicKey\<close>.\<close>

definition static_keyPair :: "int property \<Rightarrow> platform \<Rightarrow> heap \<Rightarrow> error + (keyPair \<times> heap)" where
  "static_keyPair bits env h = generateKeyPair env (or_number bits RSA_KEY_SIZE) h"

definition static_serialNumber :: "platform \<Rightarrow> string" where
  "static_serialNumber env = generateSerialNumber env"

definition toPublicKey :: "jsval \<Rightarrow> heap \<Rightarrow> error + (addr \<times> heap)" where
  "toPublicKey privateKey h = privateToPublicKey privateKey h"

subsection \<open>Concrete inputs\<close>

text \<open>
  A root created by \<^verbatim>\<open>new MutualTLS()\<close> in an empty store. The platform's answers: a small
  RSA key, given when 2048 bits are asked for and for no other size, a version 4 UUID, and
  two clock readings one second apart; forge accepts the certificate.
\<close>

definition key_example :: rsa_private where
  "key_example = \<lparr>priv_n = 3233, priv_e = 17, priv_d = 2753\<rparr>"

definition public_example :: rsa_public where
  "public_example = \<lparr>pub_n = 3233, pub_e = 17\<rparr>"

definition env_root :: platform where
  "env_root =
     \<lparr>rsa_generateKeyPair = (\<lambda>bits. if bits = 2048 then Some key_example else None),
      randomUUID = ''123e4567-e89b-42d3-a456-426614174000'',
      now_first = 1700000000000,
      now_second = 1700000001000,
      setExtensions_throws = (\<lambda>exts. False),
      sign_throws = (\<lambda>key tbs. False),
      odd_time = (\<lambda>d. d),
      odd_serialNumber = (\<lambda>s. s),
      odd_altName = (\<lambda>a. None)\<rparr>"

definition root_cert_example :: certificate where
  "root_cert_example = forge_sign env_root key_example
     \<lparr>publicKey = public_example,
      serialNumber = ''123e4567e89b42d3a456426614174000'',
      notBefore = Date 1699913600000,
      notAfter = Date 1731536001000,
      subject = [\<lparr>attr_name = ''commonName'', attr_value = Some ''Generic CA''\<rparr>],
      issuer = [\<lparr>attr_name = ''commonName'', attr_value = Some ''Generic CA''\<rparr>],
      extensions =
        [basicConstraints True,
         keyUsage True True True True True,
         extKeyUsage True True True True True,
         nsCertType True True True True True True True,
         subjectKeyIdentifier]\<rparr>"

definition root_example :: MutualTLS where
  "root_example =
     \<lparr>this_keyPair = \<lparr>kp_publicKey = 0, kp_privateKey = 1\<rparr>,
      this_cert = root_cert_example,
      this_pem = 2\<rparr>"

definition heap_example :: heap where
  "heap_example =
     [PublicKeyPem public_example, PrivateKeyPem key_example, CertificatePem root_cert_example]"

text \<open>
  The certificate \<^verbatim>\<open>root.authorize(['localhost', '127.0.0.1'])\<close> issues next, with another
  key, UUID and time.
\<close>

definition key_leaf :: rsa_private where
  "key_leaf = \<lparr>priv_n = 2773, priv_e = 17, priv_d = 157\<rparr>"

definition public_leaf :: rsa_public where
  "public_leaf = \<lparr>pub_n = 2773, pub_e = 17\<rparr>"

definition env_leaf :: platform where
  "env_leaf =
     \<lparr>rsa_generateKeyPair = (\<lambda>bits. if bits = 2048 then Some key_leaf else None),
      randomUUID = ''9b2c1f0e-5d4a-4c3b-8a29-17f6e5d4c3b2'',
      now_first = 1700000100000,
      now_second = 1700000100000,
      setExtensions_throws = (\<lambda>exts. False),
      sign_throws = (\<lambda>key tbs. False),
      odd_time = (\<lambda>d. d),
      odd_serialNumber = (\<lambda>s. s),
      odd_altName = (\<lambda>a. None)\<rparr>"

definition leaf_cert_example :: certificate where
  "leaf_cert_example = forge_sign env_leaf key_example
     \<lparr>publicKey = public_leaf,
      serialNumber = ''9b2c1f0e5d4a4c3b8a2917f6e5d4c3b2'',
      notBefore = Date 1699913700000,
      notAfter = Date 1707776100000,
      subject = [\<lparr>attr_name = ''commonName'', attr_value = Some ''localhost''\<rparr>],
      issuer = [\<lparr>attr_name = ''commonName'', attr_value = Some ''Generic CA''\<rparr>],
      extensions =
        [basicConstraints False,
         keyUsage False True False True True,
         extKeyUsage True True False False False,
         nsCertType True True False False False False False,
         subjectKeyIdentifier,
         subjectAltName [TypeValue 2 ''localhost'', TypeIp 7 ''127.0.0.1'']]\<rparr>"

definition issued_example :: issued where
  "issued_example = \<lparr>issued_key = 4, issued_cert = 5\<rparr>"

definition heap_issued :: heap where
  "heap_issued = heap_example @
     [PublicKeyPem public_leaf, PrivateKeyPem key_leaf, CertificatePem leaf_cert_example]"

text \<open>
  \<^verbatim>\<open>MutualTLS.from({ key: root.key, ca: root.ca })\<close> for the root above, and the authority it
  returns.
\<close>

definition root_from_accessors :: root where
  "root_from_accessors =
     \<lparr>root_ca = Buf (get_ca root_example), root_key = Buf (get_key root_example),
      root_publicKey = Undefined, root_keyPair = None\<rparr>"

definition clone_example :: MutualTLS where
  "clone_example =
     \<lparr>this_keyPair = \<lparr>kp_publicKey = 4, kp_privateKey = 5\<rparr>,
      this_cert = root_cert_example,
      this_pem = 6\<rparr>"

definition heap_clone :: heap where
  "heap_clone = heap_example @
     [PublicKeyPem public_example, PublicKeyPem public_example, PrivateKeyPem key_example,
      CertificatePem root_cert_example]"

text \<open>Arguments of \<^verbatim>\<open>from\<close> with a property missing, and with a public key supplied.\<close>

definition root_only_key :: root where
  "root_only_key =
     \<lparr>root_ca = Undefined, root_key = Buf (get_key root_example),
      root_publicKey = Undefined, root_keyPair = None\<rparr>"

definition root_only_ca :: root where
  "root_only_ca =
     \<lparr>root_ca = Buf (get_ca root_example), root_key = Undefined,
      root_publicKey = Undefined, root_keyPair = None\<rparr>"

definition root_with_publicKey :: root where
  "root_with_publicKey =
     \<lparr>root_ca = Buf (get_ca root_example), root_key = Buf (get_key root_example),
      root_publicKey = Str (PublicKeyPem public_leaf), root_keyPair = None\<rparr>"

text \<open>
  A certificate whose issuer differs from its subject, as an authority certified by another
  one has, the authority \<^verbatim>\<open>from\<close> restores from it, and the certificate that authority issues
  for "localhost".
\<close>

definition upstream_key :: rsa_private where
  "upstream_key = \<lparr>priv_n = 3127, priv_e = 3, priv_d = 2011\<rparr>"

definition intermediate_cert :: certificate where
  "intermediate_cert = forge_sign env_leaf upstream_key
     \<lparr>publicKey = public_example,
      serialNumber = ''0a'',
      notBefore = Date 1690000000000,
      notAfter = Date 1790000000000,
      subject = [\<lparr>attr_name = ''commonName'', attr_value = Some ''Intermediate CA''\<rparr>],
      issuer = [\<lparr>attr_name = ''commonName'', attr_value = Some ''Upstream Root''\<rparr>],
      extensions = [basicConstraints True]\<rparr>"

definition root_intermediate :: root where
  "root_intermediate =
     \<lparr>root_ca = Str (CertificatePem intermediate_cert),
      root_key = Str (PrivateKeyPem key_example),
      root_publicKey = Undefined, root_keyPair = None\<rparr>"

definition ca_intermediate :: MutualTLS where
  "ca_intermediate =
     \<lparr>this_keyPair = \<lparr>kp_publicKey = 1, kp_privateKey = 2\<rparr>,
      this_cert = intermediate_cert,
      this_pem = 3\<rparr>"

definition heap_intermediate :: heap where
  "heap_intermediate =
     [PublicKeyPem public_example, PublicKeyPem public_example, PrivateKeyPem key_example,
      CertificatePem intermediate_cert]"

definition leaf_of_intermediate :: certificate where
  "leaf_of_intermediate = forge_sign env_leaf key_example
     \<lparr>publicKey = public_leaf,
      serialNumber = ''9b2c1f0e5d4a4c3b8a2917f6e5d4c3b2'',
      notBefore = Date 1699913700000,
      notAfter = Date 1707776100000,
      subject = [\<lparr>attr_name = ''commonName'', attr_value = Some ''localhost''\<rparr>],
      issuer = [\<lparr>attr_name = ''commonName'', attr_value = Some ''Upstream Root''\<rparr>],
      extensions =
        [basicConstraints False,
         keyUsage False True False True True,
         extKeyUsage True True False False False,
         nsCertType True True False False False False False,
         subjectKeyIdentifier,
         subjectAltName [TypeValue 2 ''localhost'']]\<rparr>"

definition issued_by_intermediate :: issued where
  "issued_by_intermediate = \<lparr>issued_key = 5, issued_cert = 6\<rparr>"

definition heap_issued_by_intermediate :: heap where
  "heap_issued_by_intermediate = heap_intermediate @
     [PublicKeyPem public_leaf, PrivateKeyPem key_leaf, CertificatePem leaf_of_intermediate]"

text \<open>
  A root created while the clock reads fractions of a second, with the name "My CA" and an
  expiry of 1000 seconds, the certificate its PEM holds, and the authority restored from its
  \<^verbatim>\<open>key\<close> and \<^verbatim>\<open>ca\<close>.
\<close>

definition env_clock :: platform where
  "env_clock =
     \<lparr>rsa_generateKeyPair = (\<lambda>bits. if bits = 2048 then Some key_example else None),
      randomUUID = ''0f8fad5b-d9cb-469f-a165-70867728950e'',
      now_first = 1700000000123,
      now_second = 1700000000456,
      setExtensions_throws = (\<lambda>exts. False),
      sign_throws = (\<lambda>key tbs. False),
      odd_time = (\<lambda>d. d),
      odd_serialNumber = (\<lambda>s. s),
      odd_altName = (\<lambda>a. None)\<rparr>"

definition options_my_ca :: options where
  "options_my_ca = \<lparr>opt_name = Given ''My CA'', opt_bits = Absent, opt_expiry = Given 1000\<rparr>"

definition fields_my_ca :: tbsCertificate where
  "fields_my_ca =
     \<lparr>publicKey = public_example,
      serialNumber = ''0f8fad5bd9cb469fa16570867728950e'',
      notBefore = Date 1699913600123,
      notAfter = Date 1700001000456,
      subject = [\<lparr>attr_name = ''commonName'', attr_value = Some ''My CA''\<rparr>],
      issuer = [\<lparr>attr_name = ''commonName'', attr_value = Some ''My CA''\<rparr>],
      extensions =
        [basicConstraints True,
         keyUsage True True True True True,
         extKeyUsage True True True True True,
         nsCertType True True True True True True True,
         subjectKeyIdentifier]\<rparr>"

definition cert_my_ca :: certificate where
  "cert_my_ca = forge_sign env_clock key_example fields_my_ca"

definition cert_my_ca_read_back :: certificate where
  "cert_my_ca_read_back =
     cert_my_ca\<lparr>notBefore := Date 1699913600000, notAfter := Date 1700001000000\<rparr>"

definition root_my_ca :: MutualTLS where
  "root_my_ca =
     \<lparr>this_keyPair = \<lparr>kp_publicKey = 0, kp_privateKey = 1\<rparr>,
      this_cert = cert_my_ca,
      this_pem = 2\<rparr>"

definition heap_my_ca :: heap where
  "heap_my_ca =
     [PublicKeyPem public_example, PrivateKeyPem key_example,
      CertificatePem cert_my_ca_read_back]"



text \<open>
  The certificate \<^verbatim>\<open>root.authorize('1.2.3.04', { expiry: 60 })\<close> issues while the clock reads
  fractions of a second: the certificate object that is signed, and the certificate the
  issued PEM holds.
\<close>

definition env_leaf_clock :: platform where
  "env_leaf_clock =
     \<lparr>rsa_generateKeyPair = (\<lambda>bits. if bits = 2048 then Some key_leaf else None),
      randomUUID = ''9b2c1f0e-5d4a-4c3b-8a29-17f6e5d4c3b2'',
      now_first = 1700000100250,
      now_second = 1700000100750,
      setExtensions_throws = (\<lambda>exts. False),
      sign_throws = (\<lambda>key tbs. False),
      odd_time = (\<lambda>d. d),
      odd_serialNumber = (\<lambda>s. s),
      odd_altName = (\<lambda>a. None)\<rparr>"

definition options_minute :: options where
  "options_minute = \<lparr>opt_name = Absent, opt_bits = Absent, opt_expiry = Given 60\<rparr>"

definition fields_quad :: tbsCertificate where
  "fields_quad =
     \<lparr>publicKey = public_leaf,
      serialNumber = ''9b2c1f0e5d4a4c3b8a2917f6e5d4c3b2'',
      notBefore = Date 1699913700250,
      notAfter = Date 1700000160750,
      subject = [\<lparr>attr_name = ''commonName'', attr_value = Some ''1.2.3.04''\<rparr>],
      issuer = [\<lparr>attr_name = ''commonName'', attr_value = Some ''Generic CA''\<rparr>],
      extensions =
        [basicConstraints False,
         keyUsage False True False True True,
         extKeyUsage True True False False False,
         nsCertType True True False False False False False,
         subjectKeyIdentifier,
         subjectAltName [TypeIp 7 ''1.2.3.04'']]\<rparr>"

definition cert_quad :: certificate where
  "cert_quad = forge_sign env_leaf_clock key_example fields_quad"

definition cert_quad_read_back :: certificate where
  "cert_quad_read_back =
     cert_quad\<lparr>notBefore := Date 1699913700000, notAfter := Date 1700000160000,
       extensions :=
         [basicConstraints False,
          keyUsage False True False True True,
          extKeyUsage True True False False False,
          nsCertType True True False False False False False,
          subjectKeyIdentifier,
          subjectAltName [TypeIp 7 ''1.2.3.4'']]\<rparr>"

definition issued_quad :: issued where
  "issued_quad = \<lparr>issued_key = 4, issued_cert = 5\<rparr>"

definition heap_quad :: heap where
  "heap_quad = heap_example @
     [PublicKeyPem public_leaf, PrivateKeyPem key_leaf, CertificatePem cert_quad_read_back]"







section \<open>Properties\<close>

subsection \<open>Certificate objects and what is read back\<close>

lemma extend_fields [simp]:
  "publicKey (tbsCertificate.extend t \<lparr>signature = s\<rparr>) = publicKey t"
  "serialNumber (tbsCertificate.extend t \<lparr>signature = s\<rparr>) = serialNumber t"
  "notBefore (tbsCertificate.extend t \<lparr>signature = s\<rparr>) = notBefore t"
  "notAfter (tbsCertificate.extend t \<lparr>signature = s\<rparr>) = notAfter t"
  "subject (tbsCertificate.extend t \<lparr>signature = s\<rparr>) = subject t"
  "issuer (tbsCertificate.extend t \<lparr>signature = s\<rparr>) = issuer t"
  "extensions (tbsCertificate.extend t \<lparr>signature = s\<rparr>) = extensions t"
  "signature (tbsCertificate.extend t \<lparr>signature = s\<rparr>) = s"
  "tbsCertificate.truncate (tbsCertificate.extend t \<lparr>signature = s\<rparr>) = t"
  by (simp_all add: tbsCertificate.extend_def tbsCertificate.truncate_def)

lemma certificate_fields [simp]:
  "publicKey (forge_sign env key tbs) = publicKey tbs"
  "serialNumber (forge_sign env key tbs) = serialNumber tbs"
  "notBefore (forge_sign env key tbs) = notBefore tbs"
  "notAfter (forge_sign env key tbs) = notAfter tbs"
  "subject (forge_sign env key tbs) = subject tbs"
  "issuer (forge_sign env key tbs) = issuer tbs"
  "extensions (forge_sign env key tbs) = extensions tbs"
  "signature (forge_sign env key tbs) = RSA_SHA256 key (forge_toDer env tbs)"
  "tbsCertificate.truncate (forge_sign env key tbs) = tbs"
  by (simp_all add: forge_sign_def)

lemma those_map_Some:
  "those (map f xs) = Some ys \<Longrightarrow>
     length ys = length xs \<and> (\<forall>i<length xs. f (xs ! i) = Some (ys ! i))"
proof (induction xs arbitrary: ys)
  case Nil
  then show ?case by simp
next
  case (Cons x xs)
  from Cons.prems obtain y zs where
    y: "f x = Some y" and zs: "those (map f xs) = Some zs" and ys: "ys = y # zs"
    by (auto split: option.splits)
  from Cons.IH [OF zs] y ys show ?case
    by (auto simp add: nth_Cons split: nat.splits)
qed

lemma those_map_defined:
  "(\<forall>x\<in>set xs. f x \<noteq> None) \<Longrightarrow> \<exists>ys. those (map f xs) = Some ys"
  by (induction xs) auto

lemma read_back_extensions_root:
  "those (map (read_back_extension env) defaultExtensionsRoot) = Some defaultExtensionsRoot"
  by (simp add: defaultExtensionsRoot_def read_back_extension_def)

lemma read_back_extensions_cert:
  "those (map (read_back_extension env) (defaultExtensionsCert names)) =
     map_option (\<lambda>entries.
        [basicConstraints False,
         keyUsage False True False True True,
         extKeyUsage True True False False False,
         nsCertType True True False False False False False,
         subjectKeyIdentifier,
         subjectAltName entries])
       (those (map (read_back_altName env) (map getAltName names)))"
  by (simp add: defaultExtensionsCert_def read_back_extension_def split: option.splits)

lemma certificateFromPem_ToPem:
  assumes "forge_certificateFromPem (forge_certificateToPem env c) = Inr c'"
  shows "\<exists>exts. those (map (read_back_extension env) (extensions c)) = Some exts \<and>
     c' = \<lparr>publicKey = publicKey c,
           serialNumber = read_back_serialNumber env (serialNumber c),
           notBefore = read_back_time env (notBefore c),
           notAfter = read_back_time env (notAfter c),
           subject = subject c,
           issuer = issuer c,
           extensions = exts,
           signature = signature c\<rparr>"
  using assms
  by (auto simp add: forge_certificateToPem_def read_back_tbs_def tbsCertificate.extend_def
      tbsCertificate.truncate_def split: option.splits)

lemma certificateToPem_readable:
  assumes "those (map (read_back_extension env) (extensions c)) = Some exts"
  shows "forge_certificateToPem env c =
     CertificatePem
       \<lparr>publicKey = publicKey c,
        serialNumber = read_back_serialNumber env (serialNumber c),
        notBefore = read_back_time env (notBefore c),
        notAfter = read_back_time env (notAfter c),
        subject = subject c,
        issuer = issuer c,
        extensions = exts,
        signature = signature c\<rparr>"
  using assms
  by (simp add: forge_certificateToPem_def read_back_tbs_def tbsCertificate.extend_def
      tbsCertificate.truncate_def)

lemma forge_parse_errors:
  "forge_publicKeyFromPem t \<noteq> Inl (Error m)"
  "forge_privateKeyFromPem t \<noteq> Inl (Error m)"
  "forge_certificateFromPem t \<noteq> Inl (Error m)"
  by (cases t; simp)+

subsection \<open>Closed forms of the operations\<close>

lemma generateKeyPair_eq:
  "generateKeyPair env bits h =
     (case rsa_generateKeyPair env bits of
        None \<Rightarrow> Inl ForgeError
      | Some key \<Rightarrow>
          Inr (\<lparr>kp_publicKey = length h, kp_privateKey = Suc (length h)\<rparr>,
               h @ [PublicKeyPem \<lparr>pub_n = priv_n key, pub_e = priv_e key\<rparr>, PrivateKeyPem key]))"
  by (simp add: generateKeyPair_def forge_publicKeyToPem_def forge_privateKeyToPem_def
      forge_setPublicKey_def split: option.splits)

lemma setAttributes_Inr: "forge_setAttributes attrs = Inr stored \<Longrightarrow> stored = attrs"
  by (simp add: forge_setAttributes_def split: if_splits)

lemma setAttributes_default:
  "forge_setAttributes (defaultAttributes (Some x)) = Inr (defaultAttributes (Some x))"
  by (simp add: forge_setAttributes_def defaultAttributes_def)

lemma setAttributes_undefined:
  "forge_setAttributes (defaultAttributes None) =
     Inl ForgeError"
  by (simp add: forge_setAttributes_def defaultAttributes_def)

lemma createCA_eq:
  "createCA opts env h =
     (case rsa_generateKeyPair env (or_number (opt_bits opts) RSA_KEY_SIZE) of
        None \<Rightarrow> Inl ForgeError
      | Some key \<Rightarrow>
          if setExtensions_throws env defaultExtensionsRoot then Inl ForgeError
          else if sign_throws env key
             \<lparr>publicKey = \<lparr>pub_n = priv_n key, pub_e = priv_e key\<rparr>,
              serialNumber = generateSerialNumber env,
              notBefore = new_Date (now_first env - 86400 * 1000),
              notAfter =
                new_Date (now_second env + or_number (opt_expiry opts) ROOT_NOT_AFTER * 1000),
              subject = defaultAttributes (Some (or_string (opt_name opts) ROOT_COMMON_NAME)),
              issuer = defaultAttributes (Some (or_string (opt_name opts) ROOT_COMMON_NAME)),
              extensions = defaultExtensionsRoot\<rparr>
          then Inl ForgeError
          else
            Inr (\<lparr>this_keyPair = \<lparr>kp_publicKey = length h, kp_privateKey = Suc (length h)\<rparr>,
                  this_cert = forge_sign env key
                    \<lparr>publicKey = \<lparr>pub_n = priv_n key, pub_e = priv_e key\<rparr>,
                     serialNumber = generateSerialNumber env,
                     notBefore = new_Date (now_first env - 86400 * 1000),
                     notAfter =
                       new_Date
                         (now_second env + or_number (opt_expiry opts) ROOT_NOT_AFTER * 1000),
                     subject =
                       defaultAttributes (Some (or_string (opt_name opts) ROOT_COMMON_NAME)),
                     issuer =
                       defaultAttributes (Some (or_string (opt_name opts) ROOT_COMMON_NAME)),
                     extensions = defaultExtensionsRoot\<rparr>,
                  this_pem = Suc (Suc (length h))\<rparr>,
                 h @ [PublicKeyPem \<lparr>pub_n = priv_n key, pub_e = priv_e key\<rparr>, PrivateKeyPem key,
                      forge_certificateToPem env (forge_sign env key
                        \<lparr>publicKey = \<lparr>pub_n = priv_n key, pub_e = priv_e key\<rparr>,
                         serialNumber = generateSerialNumber env,
                         notBefore = new_Date (now_first env - 86400 * 1000),
                         notAfter =
                           new_Date
                             (now_second env +
                              or_number (opt_expiry opts) ROOT_NOT_AFTER * 1000),
                         subject =
                           defaultAttributes
                             (Some (or_string (opt_name opts) ROOT_COMMON_NAME)),
                         issuer =
                           defaultAttributes
                             (Some (or_string (opt_name opts) ROOT_COMMON_NAME)),
                         extensions = defaultExtensionsRoot\<rparr>)]))"
  by (simp add: createCA_def generateKeyPair_eq Buffer_read_def nth_append
      setAttributes_default Let_def split: option.splits)

lemma createCA_Inr:
  assumes "createCA opts env h = Inr (ca, h')"
  shows "\<exists>key. rsa_generateKeyPair env (or_number (opt_bits opts) RSA_KEY_SIZE) = Some key \<and>
           this_keyPair ca = \<lparr>kp_publicKey = length h, kp_privateKey = Suc (length h)\<rparr> \<and>
           this_pem ca = Suc (Suc (length h)) \<and>
           h' = h @ [PublicKeyPem \<lparr>pub_n = priv_n key, pub_e = priv_e key\<rparr>, PrivateKeyPem key,
                     forge_certificateToPem env (this_cert ca)] \<and>
           this_cert ca = forge_sign env key
             \<lparr>publicKey = \<lparr>pub_n = priv_n key, pub_e = priv_e key\<rparr>,
              serialNumber = generateSerialNumber env,
              notBefore = new_Date (now_first env - 86400 * 1000),
              notAfter =
                new_Date (now_second env + or_number (opt_expiry opts) ROOT_NOT_AFTER * 1000),
              subject = defaultAttributes (Some (or_string (opt_name opts) ROOT_COMMON_NAME)),
              issuer = defaultAttributes (Some (or_string (opt_name opts) ROOT_COMMON_NAME)),
              extensions = defaultExtensionsRoot\<rparr>"
  using assms unfolding createCA_eq
  by (auto split: option.splits if_splits)

lemma authorize_Inr:
  assumes "authorize this name opts env h = Inr (r, h')"
  shows "\<exists>key signing_key first.
           truthy_names name \<and>
           rsa_generateKeyPair env (or_number (opt_bits opts) RSA_KEY_SIZE) = Some key \<and>
           first_element (as_array name) = Some first \<and>
           forge_privateKeyFromPem
             (Buffer_read (h @ [PublicKeyPem \<lparr>pub_n = priv_n key, pub_e = priv_e key\<rparr>,
                PrivateKeyPem key]) (kp_privateKey (this_keyPair this))) = Inr signing_key \<and>
           issued_key r = Suc (length h) \<and>
           issued_cert r = Suc (Suc (length h)) \<and>
           h' = h @ [PublicKeyPem \<lparr>pub_n = priv_n key, pub_e = priv_e key\<rparr>, PrivateKeyPem key,
                     forge_certificateToPem env (forge_sign env signing_key
             \<lparr>publicKey = \<lparr>pub_n = priv_n key, pub_e = priv_e key\<rparr>,
              serialNumber = generateSerialNumber env,
              notBefore = new_Date (now_first env - 86400 * 1000),
              notAfter =
                new_Date (now_second env + or_number (opt_expiry opts) CERT_NOT_AFTER * 1000),
              subject = defaultAttributes (Some first),
              issuer = issuer (this_cert this),
              extensions = defaultExtensionsCert (as_array name)\<rparr>)]"
proof -
  from assms have t: "truthy_names name"
    by (simp add: authorize_def split: if_splits)
  from assms t obtain key where
    k: "rsa_generateKeyPair env (or_number (opt_bits opts) RSA_KEY_SIZE) = Some key"
    by (cases "rsa_generateKeyPair env (or_number (opt_bits opts) RSA_KEY_SIZE)")
      (simp_all add: authorize_def generateKeyPair_eq)
  from assms t k obtain first where f: "first_element (as_array name) = Some first"
    by (cases "first_element (as_array name)")
      (simp_all add: authorize_def generateKeyPair_eq Buffer_read_def nth_append
        setAttributes_undefined Let_def)
  from assms t k f show ?thesis
    by (auto simp add: authorize_def generateKeyPair_eq Buffer_read_def nth_append
      setAttributes_default Let_def
      split: sum.splits option.splits if_splits dest!: setAttributes_Inr)
qed

lemma authorize_issued_certificate:
  assumes "authorize this name opts env h = Inr (r, h')"
  shows "\<exists>(key :: rsa_private) signing_key first.
           as_array name = first # tl (as_array name) \<and>
           rsa_generateKeyPair env (or_number (opt_bits opts) RSA_KEY_SIZE) = Some key \<and>
           Buffer_read h' (issued_cert r) =
             forge_certificateToPem env (forge_sign env signing_key
             \<lparr>publicKey = \<lparr>pub_n = priv_n key, pub_e = priv_e key\<rparr>,
              serialNumber = generateSerialNumber env,
              notBefore = new_Date (now_first env - 86400 * 1000),
              notAfter =
                new_Date (now_second env + or_number (opt_expiry opts) CERT_NOT_AFTER * 1000),
              subject = defaultAttributes (Some first),
              issuer = issuer (this_cert this),
              extensions = defaultExtensionsCert (as_array name)\<rparr>)"
proof -
  from authorize_Inr [OF assms] obtain key signing_key first where
    f: "first_element (as_array name) = Some first" and
    k: "rsa_generateKeyPair env (or_number (opt_bits opts) RSA_KEY_SIZE) = Some key" and
    c: "issued_cert r = Suc (Suc (length h))" and
    h': "h' = h @ [PublicKeyPem \<lparr>pub_n = priv_n key, pub_e = priv_e key\<rparr>, PrivateKeyPem key,
                     forge_certificateToPem env (forge_sign env signing_key
             \<lparr>publicKey = \<lparr>pub_n = priv_n key, pub_e = priv_e key\<rparr>,
              serialNumber = generateSerialNumber env,
              notBefore = new_Date (now_first env - 86400 * 1000),
              notAfter =
                new_Date (now_second env + or_number (opt_expiry opts) CERT_NOT_AFTER * 1000),
              subject = defaultAttributes (Some first),
              issuer = issuer (this_cert this),
              extensions = defaultExtensionsCert (as_array name)\<rparr>)]"
    by blast
  from f have a: "as_array name = first # tl (as_array name)"
    by (cases "as_array name") simp_all
  have b: "Buffer_read h' (issued_cert r) =
             forge_certificateToPem env (forge_sign env signing_key
             \<lparr>publicKey = \<lparr>pub_n = priv_n key, pub_e = priv_e key\<rparr>,
              serialNumber = generateSerialNumber env,
              notBefore = new_Date (now_first env - 86400 * 1000),
              notAfter =
                new_Date (now_second env + or_number (opt_expiry opts) CERT_NOT_AFTER * 1000),
              subject = defaultAttributes (Some first),
              issuer = issuer (this_cert this),
              extensions = defaultExtensionsCert (as_array name)\<rparr>)"
    by (simp add: Buffer_read_def c h' nth_append)
  from a k b show ?thesis by (intro exI conjI)
qed

subsection \<open>Allocation and restoring\<close>

lemma Buffer_from_Inr:
  "Buffer_from v h = Inr (a, h') \<Longrightarrow> a = length h \<and> h' = h @ [toString h v]"
  by (cases v) auto

lemma privateToPublicKey_Inr:
  assumes "privateToPublicKey v h = Inr (a, h')"
  shows "\<exists>pk. forge_privateKeyFromPem (toString h v) = Inr pk \<and> a = length h \<and>
           h' = h @ [forge_publicKeyToPem (forge_setPublicKey (priv_n pk) (priv_e pk))]"
  using assms by (auto simp add: privateToPublicKey_def split: sum.splits)

lemma toKeyPair_Inr:
  assumes "toKeyPair r h = Inr (kp, h')"
  shows "\<exists>xs. h' = h @ xs \<and> 2 \<le> length xs \<and>
           kp_publicKey kp = length h + length xs - 2 \<and>
           kp_privateKey kp = length h + length xs - 1"
  using assms
  by (auto simp add: toKeyPair_def split: option.splits prod.splits sum.splits if_splits
      dest!: Buffer_from_Inr privateToPublicKey_Inr)

lemma toKeyPair_publicKey:
  assumes "toKeyPair r h = Inr (kp, h')" and "root_keyPair r = None"
  shows "truthy (root_key r) \<and>
         (if truthy (root_publicKey r)
          then Buffer_read h' (kp_publicKey kp) = toString h (root_publicKey r)
          else \<exists>pk. forge_privateKeyFromPem (toString h (root_key r)) = Inr pk \<and>
                 Buffer_read h' (kp_publicKey kp) =
                   forge_publicKeyToPem (forge_setPublicKey (priv_n pk) (priv_e pk)))"
  using assms
  by (auto simp add: toKeyPair_def Buffer_read_def nth_append
      split: option.splits prod.splits sum.splits if_splits
      dest!: Buffer_from_Inr privateToPublicKey_Inr)

lemma loadCA_Inr:
  assumes "loadCA r env h = Inr (ca, h')"
  shows "\<exists>h1 cert. truthy (root_ca r) \<and> toKeyPair r h = Inr (this_keyPair ca, h1) \<and>
           forge_certificateFromPem (toString h1 (root_ca r)) = Inr cert \<and>
           this_cert ca = cert \<and> this_pem ca = length h1 \<and>
           h' = h1 @ [forge_certificateToPem env cert]"
  using assms
  by (auto simp add: loadCA_def
      split: sum.splits prod.splits if_splits)

lemma Buffer_from_errors: "Buffer_from v h \<noteq> Inl (Error m)"
  by (cases v) simp_all

lemma toKeyPair_errors:
  "toKeyPair r h = Inl (Error m) \<Longrightarrow> m = ''Could not get key pair''"
  by (auto simp add: toKeyPair_def privateToPublicKey_def forge_parse_errors Buffer_from_errors
      split: option.splits prod.splits sum.splits if_splits)

lemma from_written_root:
  assumes "h1 = h @ [PublicKeyPem \<lparr>pub_n = priv_n key, pub_e = priv_e key\<rparr>, PrivateKeyPem key,
                     CertificatePem cert]"
    and "this_keyPair root = \<lparr>kp_publicKey = length h, kp_privateKey = Suc (length h)\<rparr>"
    and "this_pem root = Suc (Suc (length h))"
  shows "from_root (Some \<lparr>root_ca = Buf (get_ca root), root_key = Buf (get_key root),
                      root_publicKey = Undefined, root_keyPair = None\<rparr>) env' h1 =
       Inr (\<lparr>this_keyPair = \<lparr>kp_publicKey = length h + 4, kp_privateKey = length h + 5\<rparr>,
              this_cert = cert, this_pem = length h + 6\<rparr>,
            h1 @ [PublicKeyPem \<lparr>pub_n = priv_n key, pub_e = priv_e key\<rparr>,
                  PublicKeyPem \<lparr>pub_n = priv_n key, pub_e = priv_e key\<rparr>,
                  PrivateKeyPem key, forge_certificateToPem env' cert])"
  unfolding assms(1)
  by (simp add: from_root_def constructor_def loadCA_def toKeyPair_def
      privateToPublicKey_def get_key_def get_ca_def assms(2,3) Buffer_read_def nth_append
      forge_publicKeyToPem_def forge_setPublicKey_def)

lemma constructor_Inr:
  assumes "constructor opts r env h = Inr (ca, h')"
  shows "\<exists>xs. h' = h @ xs \<and> 3 \<le> length xs \<and>
           kp_privateKey (this_keyPair ca) = length h + length xs - 2 \<and>
           this_pem ca = length h + length xs - 1"
proof (cases r)
  case None
  with assms obtain given where "createCA given env h = Inr (ca, h')"
    by (auto simp add: constructor_def split: option.splits)
  from createCA_Inr [OF this] show ?thesis by auto
next
  case (Some given_root)
  with assms have "loadCA given_root env h = Inr (ca, h')"
    by (simp add: constructor_def)
  from loadCA_Inr [OF this] obtain h1 cert where
    k: "toKeyPair given_root h = Inr (this_keyPair ca, h1)" and
    p: "this_pem ca = length h1" and h': "h' = h1 @ [forge_certificateToPem env cert]"
    by blast
  from toKeyPair_Inr [OF k] obtain xs where
    "h1 = h @ xs" "2 \<le> length xs" "kp_privateKey (this_keyPair ca) = length h + length xs - 1"
    by blast
  with p h' have "h' = h @ (xs @ [forge_certificateToPem env cert]) \<and>
           3 \<le> length (xs @ [forge_certificateToPem env cert]) \<and>
           kp_privateKey (this_keyPair ca) =
             length h + length (xs @ [forge_certificateToPem env cert]) - 2 \<and>
           this_pem ca = length h + length (xs @ [forge_certificateToPem env cert]) - 1"
    by simp
  then show ?thesis by blast
qed

lemma getAltName_rule:
  "getAltName x =
     (if x \<noteq> [] \<and> (\<forall>ch \<in> set x. ch \<in> set ''0123456789.'') then TypeIp 7 x
      else TypeValue 2 x)"
  by (simp add: getAltName_def matches_digits_and_dots_def is_digit_or_dot_def list_all_iff
      ALTNAME_TYPE_IP_def ALTNAME_TYPE_DNS_def)

subsection \<open>Times, serial numbers and addresses in a PEM\<close>


lemma hex_digit_not_hyphen: "is_hex_digit c \<Longrightarrow> c \<noteq> CHR ''-''"
  by (auto simp: is_hex_digit_def)

lemma filter_hex_digits: "list_all is_hex_digit s \<Longrightarrow> filter (\<lambda>c. c \<noteq> CHR ''-'') s = s"
  by (induction s) (auto simp: hex_digit_not_hyphen)

lemma split_at:
  assumes "j \<le> k" and "k < length u"
  shows "drop j u = take (k - j) (drop j u) @ u ! k # drop (Suc k) u"
proof -
  have "drop j u = take (k - j) (drop j u) @ drop (k - j) (drop j u)"
    by (rule append_take_drop_id [symmetric])
  also have "drop (k - j) (drop j u) = drop k u" using assms(1) by simp
  also have "drop k u = u ! k # drop (Suc k) u" using assms(2) by (simp add: Cons_nth_drop_Suc)
  finally show ?thesis .
qed

lemma uuid_groups:
  assumes "is_uuid u"
  shows "u = take 8 u @ CHR ''-'' # take 4 (drop 9 u) @ CHR ''-'' # take 4 (drop 14 u) @
           CHR ''-'' # take 4 (drop 19 u) @ CHR ''-'' # drop 24 u"
proof -
  from assms have len: "length u = 36" and h: "u ! 8 = CHR ''-''" "u ! 13 = CHR ''-''"
    "u ! 18 = CHR ''-''" "u ! 23 = CHR ''-''" by (simp_all add: is_uuid_def)
  have a: "u = take 8 u @ u ! 8 # drop 9 u" using split_at[of 0 8 u] len by simp
  have b: "drop 9 u = take 4 (drop 9 u) @ u ! 13 # drop 14 u" using split_at[of 9 13 u] len by simp
  have c: "drop 14 u = take 4 (drop 14 u) @ u ! 18 # drop 19 u" using split_at[of 14 18 u] len by simp
  have d: "drop 19 u = take 4 (drop 19 u) @ u ! 23 # drop 24 u" using split_at[of 19 23 u] len by simp
  note a
  also note b
  also note c
  also note d
  finally show ?thesis unfolding h .
qed


text \<open>Splitting at the dots and joining with dots.\<close>

lemma split_dots_not_Nil [simp]: "split_dots s \<noteq> []"
  by (induction s) (auto split: list.splits)

lemma join_split_dots: "join_dots (split_dots s) = s"
proof (induction s)
  case Nil
  then show ?case by simp
next
  case (Cons c s)
  obtain part parts where p: "split_dots s = part # parts"
    by (cases "split_dots s") simp_all
  show ?case
  proof (cases "c = CHR ''.''")
    case True
    with Cons p show ?thesis by simp
  next
    case False
    with Cons p show ?thesis by (cases parts) simp_all
  qed
qed

lemma split_dots_chars:
  "c \<in> set s \<Longrightarrow> c = CHR ''.'' \<or> (\<exists>part\<in>set (split_dots s). c \<in> set part)"
proof (induction s)
  case Nil
  then show ?case by simp
next
  case (Cons d s)
  obtain part parts where p: "split_dots s = part # parts"
    by (cases "split_dots s") simp_all
  from Cons p show ?case by (cases "d = CHR ''.''") auto
qed

lemma is_IPv4_matches:
  assumes "is_IPv4 ip"
  shows "matches_digits_and_dots ip"
proof -
  from assms have l: "length (split_dots ip) = 4" and
    b: "\<forall>part\<in>set (split_dots ip). list_all is_digit part"
    by (simp_all add: is_IPv4_def is_byte_def list_all_iff)
  have "ip \<noteq> []"
  proof
    assume "ip = []"
    with l show False by simp
  qed
  moreover have "is_digit_or_dot c" if "c \<in> set ip" for c
  proof -
    from split_dots_chars [OF that] b have "c = CHR ''.'' \<or> is_digit c"
      by (auto simp add: list_all_iff)
    then show ?thesis by (auto simp add: is_digit_def is_digit_or_dot_def)
  qed
  ultimately show ?thesis by (simp add: matches_digits_and_dots_def list_all_iff)
qed

text \<open>The decimal form of a number, and the number a decimal form denotes.\<close>

lemma digit_char_value: "is_digit c \<Longrightarrow> digit_char (digit_value c) = c \<and> digit_value c < 10"
  by (auto simp add: is_digit_def digit_char_def digit_value_def)

lemma parseInt_snoc: "parseInt (part @ [c]) = 10 * parseInt part + digit_value c"
  by (simp add: parseInt_def)

lemma foldl_digits_mono: "a \<le> foldl (\<lambda>acc c. 10 * acc + digit_value c) a part"
proof (induction part arbitrary: a)
  case Nil
  then show ?case by simp
next
  case (Cons c part)
  have "a \<le> 10 * a + digit_value c" by simp
  also have "\<dots> \<le> foldl (\<lambda>acc c. 10 * acc + digit_value c) (10 * a + digit_value c) part"
    by (rule Cons.IH)
  finally show ?case by simp
qed

lemma parseInt_positive:
  assumes "part \<noteq> []" and "is_digit (hd part)" and "hd part \<noteq> CHR ''0''"
  shows "0 < parseInt part"
proof -
  from assms(1) obtain c cs where p: "part = c # cs" by (cases part) simp_all
  with assms have "0 < digit_value c"
    by (auto simp add: is_digit_def digit_value_def)
  also have "digit_value c \<le> foldl (\<lambda>acc c. 10 * acc + digit_value c) (digit_value c) cs"
    by (rule foldl_digits_mono)
  finally show ?thesis by (simp add: p parseInt_def)
qed

lemma decimal_parseInt:
  assumes "part \<noteq> []" and "list_all is_digit part" and "part = ''0'' \<or> hd part \<noteq> CHR ''0''"
  shows "decimal (parseInt part) = part"
  using assms
proof (induction part rule: rev_induct)
  case Nil
  then show ?case by simp
next
  case (snoc c part)
  from snoc.prems have c: "is_digit c" and d: "list_all is_digit part" by simp_all
  from digit_char_value [OF c] have v: "digit_char (digit_value c) = c" "digit_value c < 10"
    by simp_all
  show ?case
  proof (cases "part = []")
    case True
    with v show ?thesis by (simp add: parseInt_def decimal.simps)
  next
    case False
    with snoc.prems(3) have h: "hd part \<noteq> CHR ''0''" by auto
    from False d have "is_digit (hd part)" by (cases part) simp_all
    from parseInt_positive [OF False this h] have pos: "0 < parseInt part" .
    from False h snoc.IH d have ih: "decimal (parseInt part) = part" by simp
    have "decimal (parseInt (part @ [c])) = decimal (10 * parseInt part + digit_value c)"
      by (simp add: parseInt_snoc)
    also have "\<dots> = decimal ((10 * parseInt part + digit_value c) div 10) @
        [digit_char ((10 * parseInt part + digit_value c) mod 10)]"
      using pos by (subst decimal.simps) simp
    also have "(10 * parseInt part + digit_value c) div 10 = parseInt part"
      using v(2) by simp
    also have "(10 * parseInt part + digit_value c) mod 10 = digit_value c"
      using v(2) by simp
    finally show ?thesis by (simp add: ih v)
  qed
qed

lemma bytesToIP_literal:
  assumes "is_IPv4 ip"
    and "\<forall>part\<in>set (split_dots ip). part = ''0'' \<or> hd part \<noteq> CHR ''0''"
  shows "bytesToIP (map parseInt (split_dots ip)) = ip"
proof -
  have "decimal (parseInt part) = part" if "part \<in> set (split_dots ip)" for part
  proof -
    from assms(1) that have "part \<noteq> []" "list_all is_digit part"
      by (simp_all add: is_IPv4_def is_byte_def list_all_iff)
    moreover from assms(2) that have "part = ''0'' \<or> hd part \<noteq> CHR ''0''" by simp
    ultimately show ?thesis by (rule decimal_parseInt)
  qed
  then have "map decimal (map parseInt (split_dots ip)) = split_dots ip"
    by (simp add: map_idI)
  then show ?thesis by (simp add: bytesToIP_def join_split_dots)
qed

lemma read_back_altName_names:
  "\<not> matches_digits_and_dots n \<Longrightarrow>
     read_back_altName env (getAltName n) = Some (TypeValue 2 n)"
  "is_IPv4 n \<Longrightarrow>
     read_back_altName env (getAltName n) =
       Some (TypeIp 7 (bytesToIP (map parseInt (split_dots n))))"
  by (simp_all add: read_back_altName_def getAltName_def ALTNAME_TYPE_DNS_def
      ALTNAME_TYPE_IP_def is_IPv4_matches)

subsection \<open>When the operations succeed\<close>

lemma certificateToPem_sign:
  assumes "read_back_tbs env tbs = Some t"
  shows "forge_certificateToPem env (forge_sign env2 key tbs) =
     CertificatePem (tbsCertificate.extend t \<lparr>signature = RSA_SHA256 key (forge_toDer env2 tbs)\<rparr>)"
  using assms by (simp add: forge_certificateToPem_def)

lemma certificateToPem_fixed:
  assumes "read_back_tbs env tbs = Some tbs"
  shows "forge_certificateToPem env (forge_sign env2 key tbs) =
     CertificatePem (forge_sign env2 key tbs)"
  using assms by (simp add: forge_certificateToPem_def forge_sign_def)


lemma createCA_success:
  assumes "rsa_generateKeyPair env (or_number (opt_bits opts) RSA_KEY_SIZE) = Some key"
    and "\<not> setExtensions_throws env defaultExtensionsRoot"
    and "tbs =
       \<lparr>publicKey = \<lparr>pub_n = priv_n key, pub_e = priv_e key\<rparr>,
        serialNumber = generateSerialNumber env,
        notBefore = new_Date (now_first env - 86400 * 1000),
        notAfter = new_Date (now_second env + or_number (opt_expiry opts) ROOT_NOT_AFTER * 1000),
        subject = defaultAttributes (Some (or_string (opt_name opts) ROOT_COMMON_NAME)),
        issuer = defaultAttributes (Some (or_string (opt_name opts) ROOT_COMMON_NAME)),
        extensions = defaultExtensionsRoot\<rparr>"
    and "\<not> sign_throws env key tbs"
  shows "createCA opts env h =
     Inr (\<lparr>this_keyPair = \<lparr>kp_publicKey = length h, kp_privateKey = Suc (length h)\<rparr>,
           this_cert = forge_sign env key tbs,
           this_pem = Suc (Suc (length h))\<rparr>,
          h @ [PublicKeyPem \<lparr>pub_n = priv_n key, pub_e = priv_e key\<rparr>, PrivateKeyPem key,
               forge_certificateToPem env (forge_sign env key tbs)])"
  using assms(1,2,4) unfolding createCA_eq assms(3) by simp

lemma authorize_success:
  assumes "rsa_generateKeyPair env (or_number (opt_bits opts) RSA_KEY_SIZE) = Some key"
    and "as_array name = first # rest"
    and "truthy_names name"
    and "list_all (\<lambda>a. attr_value a \<noteq> None) (issuer (this_cert this))"
    and "\<not> setExtensions_throws env (defaultExtensionsCert (as_array name))"
    and "kp_privateKey (this_keyPair this) < length h"
    and "forge_privateKeyFromPem (Buffer_read h (kp_privateKey (this_keyPair this))) =
           Inr signing_key"
    and "tbs =
       \<lparr>publicKey = \<lparr>pub_n = priv_n key, pub_e = priv_e key\<rparr>,
        serialNumber = generateSerialNumber env,
        notBefore = new_Date (now_first env - 86400 * 1000),
        notAfter = new_Date (now_second env + or_number (opt_expiry opts) CERT_NOT_AFTER * 1000),
        subject = defaultAttributes (Some first),
        issuer = issuer (this_cert this),
        extensions = defaultExtensionsCert (as_array name)\<rparr>"
    and "\<not> sign_throws env signing_key tbs"
  shows "authorize this name opts env h =
     Inr (\<lparr>issued_key = Suc (length h), issued_cert = Suc (Suc (length h))\<rparr>,
          h @ [PublicKeyPem \<lparr>pub_n = priv_n key, pub_e = priv_e key\<rparr>, PrivateKeyPem key,
               forge_certificateToPem env (forge_sign env signing_key tbs)])"
proof -
  from assms(6,7) have k: "forge_privateKeyFromPem
      (Buffer_read (h @ [PublicKeyPem \<lparr>pub_n = priv_n key, pub_e = priv_e key\<rparr>,
         PrivateKeyPem key]) (kp_privateKey (this_keyPair this))) = Inr signing_key"
    by (simp add: Buffer_read_def nth_append)
  from assms(4) have i: "forge_setAttributes (issuer (this_cert this)) =
      Inr (issuer (this_cert this))"
    by (simp add: forge_setAttributes_def)
  from assms(2) have f: "first_element (as_array name) = Some first" by simp
  have s: "\<not> sign_throws env signing_key
       \<lparr>publicKey = \<lparr>pub_n = priv_n key, pub_e = priv_e key\<rparr>,
        serialNumber = generateSerialNumber env,
        notBefore = new_Date (now_first env - 86400 * 1000),
        notAfter = new_Date (now_second env + or_number (opt_expiry opts) CERT_NOT_AFTER * 1000),
        subject = defaultAttributes (Some first),
        issuer = issuer (this_cert this),
        extensions = defaultExtensionsCert (as_array name)\<rparr>"
    using assms(9) unfolding assms(8) .
  have p: "Buffer_read (h @ [a, b]) (length h) = a" for a b
    by (simp add: Buffer_read_def)
  from s show ?thesis
    unfolding assms(8)
    by (simp add: authorize_def generateKeyPair_eq assms(1,3,5) f i k p
        setAttributes_default Let_def)
qed

subsection \<open>Evaluation at the concrete inputs\<close>

lemmas read_back_defs =
  read_back_tbs_def read_back_extension_def read_back_altName_def read_back_time_def
  read_back_serialNumber_def is_hex_digit_def is_IPv4_def is_byte_def is_digit_def
  parseInt_def digit_value_def bytesToIP_def digit_char_def decimal.simps

lemmas attribute_defs =
  defaultAttributes_def defaultExtensionsCert_def defaultExtensionsRoot_def getAltName_def
  matches_digits_and_dots_def is_digit_or_dot_def ALTNAME_TYPE_DNS_def ALTNAME_TYPE_IP_def
  or_number_def or_string_def RSA_KEY_SIZE_def CERT_NOT_AFTER_def ROOT_NOT_AFTER_def
  ROOT_COMMON_NAME_def generateSerialNumber_def new_Date_def

lemma createCA_example: "createCA no_options env_root [] = Inr (root_example, heap_example)"
proof -
  define tbs where "tbs =
     \<lparr>publicKey = public_example,
      serialNumber = ''123e4567e89b42d3a456426614174000'',
      notBefore = Date 1699913600000,
      notAfter = Date 1731536001000,
      subject = [\<lparr>attr_name = ''commonName'', attr_value = Some ''Generic CA''\<rparr>],
      issuer = [\<lparr>attr_name = ''commonName'', attr_value = Some ''Generic CA''\<rparr>],
      extensions =
        [basicConstraints True,
         keyUsage True True True True True,
         extKeyUsage True True True True True,
         nsCertType True True True True True True True,
         subjectKeyIdentifier]\<rparr>"
  have r: "read_back_tbs env_root tbs = Some tbs"
    by (simp add: tbs_def read_back_defs env_root_def)
  have 1: "rsa_generateKeyPair env_root (or_number (opt_bits no_options) RSA_KEY_SIZE) =
      Some key_example"
    by (simp add: env_root_def no_options_def or_number_def RSA_KEY_SIZE_def)
  have 2: "\<not> setExtensions_throws env_root defaultExtensionsRoot"
    by (simp add: env_root_def)
  have 3: "tbs =
       \<lparr>publicKey = \<lparr>pub_n = priv_n key_example, pub_e = priv_e key_example\<rparr>,
        serialNumber = generateSerialNumber env_root,
        notBefore = new_Date (now_first env_root - 86400 * 1000),
        notAfter = new_Date
          (now_second env_root + or_number (opt_expiry no_options) ROOT_NOT_AFTER * 1000),
        subject = defaultAttributes (Some (or_string (opt_name no_options) ROOT_COMMON_NAME)),
        issuer = defaultAttributes (Some (or_string (opt_name no_options) ROOT_COMMON_NAME)),
        extensions = defaultExtensionsRoot\<rparr>"
    by (simp add: tbs_def env_root_def no_options_def attribute_defs key_example_def
        public_example_def)
  have 4: "\<not> sign_throws env_root key_example tbs"
    by (simp add: env_root_def)
  have pk: "\<lparr>pub_n = priv_n key_example, pub_e = priv_e key_example\<rparr> = public_example"
    by (simp add: key_example_def public_example_def)
  from createCA_success [OF 1 2 3 4, of "[]"] show ?thesis
    unfolding certificateToPem_fixed [OF r] pk
    by (simp add: root_example_def heap_example_def root_cert_example_def tbs_def)
qed



lemma public_of_key_example:
  "\<lparr>pub_n = priv_n key_example, pub_e = priv_e key_example\<rparr> = public_example"
  by (simp add: key_example_def public_example_def)

lemma public_of_key_leaf:
  "\<lparr>pub_n = priv_n key_leaf, pub_e = priv_e key_leaf\<rparr> = public_leaf"
  by (simp add: key_leaf_def public_leaf_def)

lemma authorize_root_example:
  assumes "rsa_generateKeyPair env (or_number (opt_bits opts) RSA_KEY_SIZE) = Some key_leaf"
    and "as_array name = first # rest"
    and "truthy_names name"
    and "\<not> setExtensions_throws env (defaultExtensionsCert (as_array name))"
    and "tbs =
       \<lparr>publicKey = public_leaf,
        serialNumber = generateSerialNumber env,
        notBefore = new_Date (now_first env - 86400 * 1000),
        notAfter = new_Date (now_second env + or_number (opt_expiry opts) CERT_NOT_AFTER * 1000),
        subject = defaultAttributes (Some first),
        issuer = [\<lparr>attr_name = ''commonName'', attr_value = Some ''Generic CA''\<rparr>],
        extensions = defaultExtensionsCert (as_array name)\<rparr>"
    and "\<not> sign_throws env key_example tbs"
  shows "authorize root_example name opts env heap_example =
     Inr (\<lparr>issued_key = 4, issued_cert = 5\<rparr>,
          heap_example @ [PublicKeyPem public_leaf, PrivateKeyPem key_leaf,
            forge_certificateToPem env (forge_sign env key_example tbs)])"
proof -
  have i: "issuer (this_cert root_example) =
      [\<lparr>attr_name = ''commonName'', attr_value = Some ''Generic CA''\<rparr>]"
    by (simp add: root_example_def root_cert_example_def)
  have 4: "list_all (\<lambda>a. attr_value a \<noteq> None) (issuer (this_cert root_example))"
    by (simp add: i)
  have 6: "kp_privateKey (this_keyPair root_example) < length heap_example"
    by (simp add: root_example_def heap_example_def)
  have 7: "forge_privateKeyFromPem
      (Buffer_read heap_example (kp_privateKey (this_keyPair root_example))) = Inr key_example"
    by (simp add: root_example_def heap_example_def Buffer_read_def)
  have 8: "tbs =
       \<lparr>publicKey = \<lparr>pub_n = priv_n key_leaf, pub_e = priv_e key_leaf\<rparr>,
        serialNumber = generateSerialNumber env,
        notBefore = new_Date (now_first env - 86400 * 1000),
        notAfter = new_Date (now_second env + or_number (opt_expiry opts) CERT_NOT_AFTER * 1000),
        subject = defaultAttributes (Some first),
        issuer = issuer (this_cert root_example),
        extensions = defaultExtensionsCert (as_array name)\<rparr>"
    unfolding i public_of_key_leaf by (rule assms(5))
  have l: "length heap_example = 3" by (simp add: heap_example_def)
  from authorize_success [OF assms(1,2,3) 4 assms(4) 6 7 8 assms(6)] show ?thesis
    unfolding public_of_key_leaf l by simp
qed

lemma authorize_example:
  "authorize root_example (ManyNames [''localhost'', ''127.0.0.1'']) no_options env_leaf
     heap_example = Inr (issued_example, heap_issued)"
proof -
  define tbs where "tbs =
     \<lparr>publicKey = public_leaf,
      serialNumber = ''9b2c1f0e5d4a4c3b8a2917f6e5d4c3b2'',
      notBefore = Date 1699913700000,
      notAfter = Date 1707776100000,
      subject = [\<lparr>attr_name = ''commonName'', attr_value = Some ''localhost''\<rparr>],
      issuer = [\<lparr>attr_name = ''commonName'', attr_value = Some ''Generic CA''\<rparr>],
      extensions =
        [basicConstraints False,
         keyUsage False True False True True,
         extKeyUsage True True False False False,
         nsCertType True True False False False False False,
         subjectKeyIdentifier,
         subjectAltName [TypeValue 2 ''localhost'', TypeIp 7 ''127.0.0.1'']]\<rparr>"
  have r: "read_back_tbs env_leaf tbs = Some tbs"
    by (simp add: tbs_def read_back_defs env_leaf_def)
  have 1: "rsa_generateKeyPair env_leaf (or_number (opt_bits no_options) RSA_KEY_SIZE) =
      Some key_leaf"
    by (simp add: env_leaf_def no_options_def or_number_def RSA_KEY_SIZE_def)
  have 2: "as_array (ManyNames [''localhost'', ''127.0.0.1'']) = ''localhost'' # [''127.0.0.1'']"
    by simp
  have 3: "truthy_names (ManyNames [''localhost'', ''127.0.0.1''])" by simp
  have 4: "\<not> setExtensions_throws env_leaf
      (defaultExtensionsCert (as_array (ManyNames [''localhost'', ''127.0.0.1''])))"
    by (simp add: env_leaf_def)
  have 5: "tbs =
       \<lparr>publicKey = public_leaf,
        serialNumber = generateSerialNumber env_leaf,
        notBefore = new_Date (now_first env_leaf - 86400 * 1000),
        notAfter = new_Date
          (now_second env_leaf + or_number (opt_expiry no_options) CERT_NOT_AFTER * 1000),
        subject = defaultAttributes (Some ''localhost''),
        issuer = [\<lparr>attr_name = ''commonName'', attr_value = Some ''Generic CA''\<rparr>],
        extensions = defaultExtensionsCert (as_array (ManyNames [''localhost'', ''127.0.0.1'']))\<rparr>"
    by (simp add: tbs_def env_leaf_def no_options_def attribute_defs)
  have 6: "\<not> sign_throws env_leaf key_example tbs"
    by (simp add: env_leaf_def)
  from authorize_root_example [OF 1 2 3 4 5 6] show ?thesis
    unfolding certificateToPem_fixed [OF r]
    by (simp add: issued_example_def heap_issued_def leaf_cert_example_def tbs_def)
qed

lemma read_back_quad:
  "read_back_tbs env_leaf_clock fields_quad =
      Some (tbsCertificate.truncate cert_quad_read_back)"
  "tbsCertificate.extend (tbsCertificate.truncate cert_quad_read_back)
      \<lparr>signature = RSA_SHA256 key_example (forge_toDer env_leaf_clock fields_quad)\<rparr> =
      cert_quad_read_back"
  by (simp_all add: fields_quad_def cert_quad_read_back_def cert_quad_def read_back_defs
      env_leaf_clock_def tbsCertificate.truncate_def forge_sign_def
      tbsCertificate.extend_def)

lemma authorize_quad:
  "authorize root_example (OneName ''1.2.3.04'') options_minute env_leaf_clock heap_example =
     Inr (issued_quad, heap_quad)"
proof -
  note r = read_back_quad(1) and e = read_back_quad(2)
  have 1: "rsa_generateKeyPair env_leaf_clock (or_number (opt_bits options_minute) RSA_KEY_SIZE) =
      Some key_leaf"
    by (simp add: env_leaf_clock_def options_minute_def or_number_def RSA_KEY_SIZE_def)
  have 2: "as_array (OneName ''1.2.3.04'') = ''1.2.3.04'' # []"
    by simp
  have 3: "truthy_names (OneName ''1.2.3.04'')" by simp
  have 4: "\<not> setExtensions_throws env_leaf_clock
      (defaultExtensionsCert (as_array (OneName ''1.2.3.04'')))"
    by (simp add: env_leaf_clock_def)
  have 5: "fields_quad =
       \<lparr>publicKey = public_leaf,
        serialNumber = generateSerialNumber env_leaf_clock,
        notBefore = new_Date (now_first env_leaf_clock - 86400 * 1000),
        notAfter = new_Date
          (now_second env_leaf_clock + or_number (opt_expiry options_minute) CERT_NOT_AFTER * 1000),
        subject = defaultAttributes (Some ''1.2.3.04''),
        issuer = [\<lparr>attr_name = ''commonName'', attr_value = Some ''Generic CA''\<rparr>],
        extensions = defaultExtensionsCert (as_array (OneName ''1.2.3.04''))\<rparr>"
    by (simp add: fields_quad_def env_leaf_clock_def options_minute_def attribute_defs)
  have 6: "\<not> sign_throws env_leaf_clock key_example fields_quad"
    by (simp add: env_leaf_clock_def)
  from authorize_root_example [OF 1 2 3 4 5 6] show ?thesis
    unfolding certificateToPem_sign [OF r] e
    by (simp add: issued_quad_def heap_quad_def)
qed

lemma read_back_root_cert_example:
  "forge_certificateToPem env_leaf root_cert_example = CertificatePem root_cert_example"
  unfolding root_cert_example_def
  by (rule certificateToPem_fixed) (simp add: read_back_defs env_leaf_def)

lemma from_example:
  "from_root (Some root_from_accessors) env_leaf heap_example = Inr (clone_example, heap_clone)"
proof -
  have 1: "heap_example = [] @ [PublicKeyPem \<lparr>pub_n = priv_n key_example, pub_e = priv_e key_example\<rparr>,
      PrivateKeyPem key_example, CertificatePem root_cert_example]"
    by (simp add: heap_example_def public_of_key_example)
  have 2: "this_keyPair root_example = \<lparr>kp_publicKey = length [], kp_privateKey = Suc (length [])\<rparr>"
    "this_pem root_example = Suc (Suc (length []))"
    by (simp_all add: root_example_def)
  from from_written_root [OF 1 2, of env_leaf] show ?thesis
    unfolding read_back_root_cert_example public_of_key_example
    by (simp add: root_from_accessors_def clone_example_def heap_clone_def)
qed

lemma read_back_intermediate_cert:
  "forge_certificateToPem env_leaf intermediate_cert = CertificatePem intermediate_cert"
  unfolding intermediate_cert_def
  by (rule certificateToPem_fixed) (simp add: read_back_defs env_leaf_def)

lemma from_intermediate:
  "from_root (Some root_intermediate) env_leaf [] = Inr (ca_intermediate, heap_intermediate)"
  by (simp add: from_root_def constructor_def loadCA_def toKeyPair_def privateToPublicKey_def
      root_intermediate_def read_back_intermediate_cert forge_publicKeyToPem_def
      forge_setPublicKey_def public_of_key_example ca_intermediate_def heap_intermediate_def
      Buffer_read_def)

lemma authorize_intermediate:
  "authorize ca_intermediate (OneName ''localhost'') no_options env_leaf heap_intermediate =
     Inr (issued_by_intermediate, heap_issued_by_intermediate)"
proof -
  define tbs where "tbs =
     \<lparr>publicKey = public_leaf,
      serialNumber = ''9b2c1f0e5d4a4c3b8a2917f6e5d4c3b2'',
      notBefore = Date 1699913700000,
      notAfter = Date 1707776100000,
      subject = [\<lparr>attr_name = ''commonName'', attr_value = Some ''localhost''\<rparr>],
      issuer = [\<lparr>attr_name = ''commonName'', attr_value = Some ''Upstream Root''\<rparr>],
      extensions =
        [basicConstraints False,
         keyUsage False True False True True,
         extKeyUsage True True False False False,
         nsCertType True True False False False False False,
         subjectKeyIdentifier,
         subjectAltName [TypeValue 2 ''localhost'']]\<rparr>"
  have r: "read_back_tbs env_leaf tbs = Some tbs"
    by (simp add: tbs_def read_back_defs env_leaf_def)
  have i: "issuer (this_cert ca_intermediate) =
      [\<lparr>attr_name = ''commonName'', attr_value = Some ''Upstream Root''\<rparr>]"
    by (simp add: ca_intermediate_def intermediate_cert_def)
  have 1: "rsa_generateKeyPair env_leaf (or_number (opt_bits no_options) RSA_KEY_SIZE) =
      Some key_leaf"
    by (simp add: env_leaf_def no_options_def or_number_def RSA_KEY_SIZE_def)
  have 2: "as_array (OneName ''localhost'') = ''localhost'' # []"
    by simp
  have 3: "truthy_names (OneName ''localhost'')" by simp
  have 4: "list_all (\<lambda>a. attr_value a \<noteq> None) (issuer (this_cert ca_intermediate))"
    by (simp add: i)
  have 5: "\<not> setExtensions_throws env_leaf
      (defaultExtensionsCert (as_array (OneName ''localhost'')))"
    by (simp add: env_leaf_def)
  have 6: "kp_privateKey (this_keyPair ca_intermediate) < length heap_intermediate"
    by (simp add: ca_intermediate_def heap_intermediate_def)
  have 7: "forge_privateKeyFromPem
      (Buffer_read heap_intermediate (kp_privateKey (this_keyPair ca_intermediate))) =
      Inr key_example"
    by (simp add: ca_intermediate_def heap_intermediate_def Buffer_read_def)
  have 8: "tbs =
       \<lparr>publicKey = \<lparr>pub_n = priv_n key_leaf, pub_e = priv_e key_leaf\<rparr>,
        serialNumber = generateSerialNumber env_leaf,
        notBefore = new_Date (now_first env_leaf - 86400 * 1000),
        notAfter = new_Date
          (now_second env_leaf + or_number (opt_expiry no_options) CERT_NOT_AFTER * 1000),
        subject = defaultAttributes (Some ''localhost''),
        issuer = issuer (this_cert ca_intermediate),
        extensions = defaultExtensionsCert (as_array (OneName ''localhost''))\<rparr>"
    unfolding i public_of_key_leaf
    by (simp add: tbs_def env_leaf_def no_options_def attribute_defs)
  have 9: "\<not> sign_throws env_leaf key_example tbs"
    by (simp add: env_leaf_def)
  have l: "length heap_intermediate = 4" by (simp add: heap_intermediate_def)
  from authorize_success [OF 1 2 3 4 5 6 7 8 9] show ?thesis
    unfolding certificateToPem_fixed [OF r] public_of_key_leaf l
    by (simp add: issued_by_intermediate_def heap_issued_by_intermediate_def
        leaf_of_intermediate_def tbs_def)
qed

lemma read_back_my_ca:
  "read_back_tbs env fields_my_ca = Some (tbsCertificate.truncate cert_my_ca_read_back)"
  "tbsCertificate.extend (tbsCertificate.truncate cert_my_ca_read_back)
      \<lparr>signature = RSA_SHA256 key_example (forge_toDer env_clock fields_my_ca)\<rparr> =
      cert_my_ca_read_back"
  "read_back_tbs env (tbsCertificate.truncate cert_my_ca_read_back) =
      Some (tbsCertificate.truncate cert_my_ca_read_back)"
  by (simp_all add: fields_my_ca_def cert_my_ca_read_back_def cert_my_ca_def read_back_defs
      tbsCertificate.truncate_def forge_sign_def tbsCertificate.extend_def)

lemma createCA_my_ca: "createCA options_my_ca env_clock [] = Inr (root_my_ca, heap_my_ca)"
proof -
  have 1: "rsa_generateKeyPair env_clock (or_number (opt_bits options_my_ca) RSA_KEY_SIZE) =
      Some key_example"
    by (simp add: env_clock_def options_my_ca_def or_number_def RSA_KEY_SIZE_def)
  have 2: "\<not> setExtensions_throws env_clock defaultExtensionsRoot"
    by (simp add: env_clock_def)
  have 3: "fields_my_ca =
       \<lparr>publicKey = \<lparr>pub_n = priv_n key_example, pub_e = priv_e key_example\<rparr>,
        serialNumber = generateSerialNumber env_clock,
        notBefore = new_Date (now_first env_clock - 86400 * 1000),
        notAfter = new_Date
          (now_second env_clock + or_number (opt_expiry options_my_ca) ROOT_NOT_AFTER * 1000),
        subject = defaultAttributes (Some (or_string (opt_name options_my_ca) ROOT_COMMON_NAME)),
        issuer = defaultAttributes (Some (or_string (opt_name options_my_ca) ROOT_COMMON_NAME)),
        extensions = defaultExtensionsRoot\<rparr>"
    by (simp add: fields_my_ca_def env_clock_def options_my_ca_def attribute_defs key_example_def
        public_example_def)
  have 4: "\<not> sign_throws env_clock key_example fields_my_ca"
    by (simp add: env_clock_def)
  from createCA_success [OF 1 2 3 4, of "[]"] show ?thesis
    unfolding certificateToPem_sign [OF read_back_my_ca(1)] read_back_my_ca(2)
      public_of_key_example
    by (simp add: root_my_ca_def heap_my_ca_def cert_my_ca_def)
qed



subsection \<open>The accessors\<close>

text \<open>
  Claim C1 says that each read of \<^verbatim>\<open>key\<close> and \<^verbatim>\<open>ca\<close> returns a copy, so that writing to a
  returned buffer changes neither the authority nor a later read. The accessors return
  \<^verbatim>\<open>this._keyPair.privateKey\<close> and \<^verbatim>\<open>this._pem\<close> themselves. For the root created above:
  the buffer \<^verbatim>\<open>key\<close> returns is the one the authority holds; after the caller overwrites it,
  the next read of \<^verbatim>\<open>key\<close> returns the overwritten contents, and likewise for \<^verbatim>\<open>ca\<close>; and
  \<^verbatim>\<open>authorize\<close>, which succeeded before, now fails to parse the authority's private key.
\<close>

theorem accessor_defensive_copy_counterexample:
  "createCA no_options env_root [] = Inr (root_example, heap_example) \<and>
   get_key root_example = kp_privateKey (this_keyPair root_example) \<and>
   get_ca root_example = this_pem root_example \<and>
   Buffer_read heap_example (get_key root_example) = PrivateKeyPem key_example \<and>
   Buffer_read (Buffer_write heap_example (get_key root_example) (Plain ''overwritten''))
     (get_key root_example) = Plain ''overwritten'' \<and>
   Buffer_read heap_example (get_ca root_example) = CertificatePem root_cert_example \<and>
   Buffer_read (Buffer_write heap_example (get_ca root_example) (Plain ''overwritten''))
     (get_ca root_example) = Plain ''overwritten'' \<and>
   authorize root_example (ManyNames [''localhost'', ''127.0.0.1'']) no_options env_leaf
     heap_example = Inr (issued_example, heap_issued) \<and>
   authorize root_example (ManyNames [''localhost'', ''127.0.0.1'']) no_options env_leaf
     (Buffer_write heap_example (get_key root_example) (Plain ''overwritten'')) =
     Inl ForgeError"
proof -
  have 1: "get_key root_example = kp_privateKey (this_keyPair root_example)"
    "get_ca root_example = this_pem root_example"
    by (simp_all add: get_key_def get_ca_def)
  have 2: "Buffer_read heap_example (get_key root_example) = PrivateKeyPem key_example"
    "Buffer_read (Buffer_write heap_example (get_key root_example) (Plain ''overwritten''))
       (get_key root_example) = Plain ''overwritten''"
    "Buffer_read heap_example (get_ca root_example) = CertificatePem root_cert_example"
    "Buffer_read (Buffer_write heap_example (get_ca root_example) (Plain ''overwritten''))
       (get_ca root_example) = Plain ''overwritten''"
    by (simp_all add: get_key_def get_ca_def root_example_def heap_example_def Buffer_read_def
        Buffer_write_def)
  have 3: "authorize root_example (ManyNames [''localhost'', ''127.0.0.1'']) no_options env_leaf
     (Buffer_write heap_example (get_key root_example) (Plain ''overwritten'')) =
     Inl ForgeError"
    by (simp add: authorize_def generateKeyPair_eq env_leaf_def no_options_def or_number_def
        RSA_KEY_SIZE_def Buffer_read_def Buffer_write_def heap_example_def root_example_def
        get_key_def nth_append forge_setAttributes_def root_cert_example_def
        defaultAttributes_def Let_def)
  from 1 2 3 createCA_example authorize_example show ?thesis by blast
qed

text \<open>
  Claim C1, as the code has it. The copies are made by the constructor, not by the accessors.
  An authority that the constructor returns, created or restored, keeps its private key and
  its certificate in two distinct buffers that the constructor allocated: they are distinct
  from every buffer that existed before the call, the buffers passed to \<^verbatim>\<open>from\<close> among them,
  and all earlier buffers are left as they were. So a write to any earlier buffer changes
  nothing that \<^verbatim>\<open>key\<close> and \<^verbatim>\<open>ca\<close> return. The accessors return these two buffers themselves,
  the same on every read, and a write through a returned buffer is what the next read returns.
\<close>

theorem accessors_return_internal_buffers:
  assumes "constructor opts r env h = Inr (ca, h')"
  shows "get_key ca = kp_privateKey (this_keyPair ca) \<and>
         get_ca ca = this_pem ca \<and>
         length h \<le> get_key ca \<and> get_key ca < get_ca ca \<and> get_ca ca < length h' \<and>
         take (length h) h' = h \<and>
         (\<forall>a t. a < length h \<longrightarrow>
            Buffer_read (Buffer_write h' a t) (get_key ca) = Buffer_read h' (get_key ca) \<and>
            Buffer_read (Buffer_write h' a t) (get_ca ca) = Buffer_read h' (get_ca ca)) \<and>
         (\<forall>t. Buffer_read (Buffer_write h' (get_key ca) t) (get_key ca) = t) \<and>
         (\<forall>t. Buffer_read (Buffer_write h' (get_ca ca) t) (get_ca ca) = t)"
proof -
  from constructor_Inr [OF assms] obtain xs where
    h': "h' = h @ xs" and l: "3 \<le> length xs" and
    k: "kp_privateKey (this_keyPair ca) = length h + length xs - 2" and
    p: "this_pem ca = length h + length xs - 1"
    by blast
  have len: "length h' = length h + length xs" by (simp add: h')
  have 1: "get_key ca = kp_privateKey (this_keyPair ca)" "get_ca ca = this_pem ca"
    by (simp_all add: get_key_def get_ca_def)
  have 2: "length h \<le> get_key ca" "get_key ca < get_ca ca" "get_ca ca < length h'"
    using l by (simp_all add: 1 k p len)
  have 3: "take (length h) h' = h" by (simp add: h')
  have 4: "Buffer_read (Buffer_write h' a t) (get_key ca) = Buffer_read h' (get_key ca) \<and>
           Buffer_read (Buffer_write h' a t) (get_ca ca) = Buffer_read h' (get_ca ca)"
    if "a < length h" for a t
    using that 2 by (simp add: Buffer_read_def Buffer_write_def)
  have 5: "Buffer_read (Buffer_write h' (get_key ca) t) (get_key ca) = t"
    "Buffer_read (Buffer_write h' (get_ca ca) t) (get_ca ca) = t" for t
    using 2 by (simp_all add: Buffer_read_def Buffer_write_def)
  from 1 2 3 4 5 show ?thesis by blast
qed

theorem accessors_return_internal_buffers_witness:
  "constructor None (Some root_from_accessors) env_leaf heap_example =
     Inr (clone_example, heap_clone) \<and>
   length heap_example = 3 \<and> get_key clone_example = 5 \<and> get_ca clone_example = 6 \<and>
   length heap_clone = 7 \<and>
   take (length heap_example) heap_clone = heap_example \<and>
   Buffer_read (Buffer_write heap_clone (get_key root_example) (Plain ''overwritten''))
     (get_key clone_example) = Buffer_read heap_clone (get_key clone_example) \<and>
   Buffer_read (Buffer_write heap_clone (get_ca root_example) (Plain ''overwritten''))
     (get_ca clone_example) = Buffer_read heap_clone (get_ca clone_example) \<and>
   Buffer_read (Buffer_write heap_clone (get_key clone_example) (Plain ''overwritten''))
     (get_key clone_example) = Plain ''overwritten'' \<and>
   Buffer_read (Buffer_write heap_clone (get_ca clone_example) (Plain ''overwritten''))
     (get_ca clone_example) = Plain ''overwritten''"
proof -
  have c: "constructor None (Some root_from_accessors) env_leaf heap_example =
           Inr (clone_example, heap_clone)"
    using from_example by (simp add: from_root_def)
  have a: "get_key root_example < length heap_example"
    "get_ca root_example < length heap_example"
    by (simp_all add: get_key_def get_ca_def root_example_def heap_example_def)
  have v: "length heap_example = 3" "get_key clone_example = 5" "get_ca clone_example = 6"
    "length heap_clone = 7"
    by (simp_all add: heap_example_def heap_clone_def get_key_def get_ca_def clone_example_def)
  from accessors_return_internal_buffers [OF c] a v c show ?thesis by blast
qed

subsection \<open>The name guard of authorize\<close>

text \<open>
  The guard \<^verbatim>\<open>if (!name)\<close> is the only place that throws "Common name is required", and it
  throws exactly for a falsy argument: a missing one, or the empty string. A string that is
  not empty is handled as the array holding it.
\<close>

lemma authorize_missing_name_iff:
  "authorize this name opts env h = Inl (Error ''Common name is required'') \<longleftrightarrow>
     \<not> truthy_names name"
proof
  assume a: "authorize this name opts env h = Inl (Error ''Common name is required'')"
  show "\<not> truthy_names name"
  proof
    assume "truthy_names name"
    with a show False
      by (auto simp add: authorize_def generateKeyPair_eq Let_def forge_setAttributes_def
          forge_parse_errors split: sum.splits option.splits if_splits)
  qed
next
  assume "\<not> truthy_names name"
  then show "authorize this name opts env h = Inl (Error ''Common name is required'')"
    by (simp add: authorize_def)
qed

lemma authorize_bare_string:
  "s \<noteq> [] \<Longrightarrow> authorize this (OneName s) opts env h = authorize this (ManyNames [s]) opts env h"
  by (simp add: authorize_def)

text \<open>
  Claim C2 says that \<^verbatim>\<open>authorize\<close> fails with "Common name is required" also for an empty
  array. An empty array is truthy, so \<^verbatim>\<open>authorize([])\<close> passes the guard, generates a key
  pair, takes \<^verbatim>\<open>name[0]\<close>, which is \<^verbatim>\<open>undefined\<close>, as the common name, and fails only when
  forge rejects the subject with its own exception ("Attribute value not specified."), not
  with "Common name is required". Evaluated for the root created above.
\<close>

theorem authorize_empty_array:
  "truthy_names (ManyNames []) \<and>
   authorize root_example (ManyNames []) no_options env_leaf heap_example =
     Inl ForgeError \<and>
   authorize root_example (ManyNames []) no_options env_leaf heap_example \<noteq>
     Inl (Error ''Common name is required'')"
  by (simp add: authorize_def generateKeyPair_eq env_leaf_def no_options_def or_number_def
      RSA_KEY_SIZE_def Buffer_read_def setAttributes_undefined Let_def)

subsection \<open>The issuer of an issued certificate\<close>

lemma names_read_back:
  assumes "\<forall>n\<in>set names. \<not> matches_digits_and_dots n \<or> is_IPv4 n"
  shows "\<exists>entries. those (map (read_back_altName env) (map getAltName names)) = Some entries"
proof -
  have "\<forall>a\<in>set (map getAltName names). read_back_altName env a \<noteq> None"
    using assms read_back_altName_names [of _ env] by auto
  then show ?thesis by (rule those_map_defined)
qed

lemma authorize_copies_issuer:
  assumes "authorize this name opts env h = Inr (r, h')"
  shows "(\<exists>cert. Buffer_read h' (issued_cert r) = forge_certificateToPem env cert \<and>
            issuer cert = issuer (this_cert this)) \<and>
         (\<forall>c. forge_certificateFromPem (Buffer_read h' (issued_cert r)) = Inr c \<longrightarrow>
            issuer c = issuer (this_cert this)) \<and>
         ((\<forall>n\<in>set (as_array name). \<not> matches_digits_and_dots n \<or> is_IPv4 n) \<longrightarrow>
            (\<exists>c. forge_certificateFromPem (Buffer_read h' (issued_cert r)) = Inr c \<and>
               issuer c = issuer (this_cert this)))"
proof -
  from authorize_issued_certificate [OF assms] obtain key :: rsa_private
    and signing_key first where
    b: "Buffer_read h' (issued_cert r) =
             forge_certificateToPem env (forge_sign env signing_key
             \<lparr>publicKey = \<lparr>pub_n = priv_n key, pub_e = priv_e key\<rparr>,
              serialNumber = generateSerialNumber env,
              notBefore = new_Date (now_first env - 86400 * 1000),
              notAfter =
                new_Date (now_second env + or_number (opt_expiry opts) CERT_NOT_AFTER * 1000),
              subject = defaultAttributes (Some first),
              issuer = issuer (this_cert this),
              extensions = defaultExtensionsCert (as_array name)\<rparr>)"
    by blast
  define cert where "cert = forge_sign env signing_key
             \<lparr>publicKey = \<lparr>pub_n = priv_n key, pub_e = priv_e key\<rparr>,
              serialNumber = generateSerialNumber env,
              notBefore = new_Date (now_first env - 86400 * 1000),
              notAfter =
                new_Date (now_second env + or_number (opt_expiry opts) CERT_NOT_AFTER * 1000),
              subject = defaultAttributes (Some first),
              issuer = issuer (this_cert this),
              extensions = defaultExtensionsCert (as_array name)\<rparr>"
  have p: "Buffer_read h' (issued_cert r) = forge_certificateToPem env cert"
    using b by (simp add: cert_def)
  have i: "issuer cert = issuer (this_cert this)" by (simp add: cert_def)
  have e: "extensions cert = defaultExtensionsCert (as_array name)" by (simp add: cert_def)
  from p i have 1: "\<exists>cert. Buffer_read h' (issued_cert r) = forge_certificateToPem env cert \<and>
            issuer cert = issuer (this_cert this)"
    by blast
  have 2: "issuer c = issuer (this_cert this)"
    if "forge_certificateFromPem (Buffer_read h' (issued_cert r)) = Inr c" for c
    using certificateFromPem_ToPem [of env cert c] that p i by auto
  have 3: "\<exists>c. forge_certificateFromPem (Buffer_read h' (issued_cert r)) = Inr c \<and>
               issuer c = issuer (this_cert this)"
    if "\<forall>n\<in>set (as_array name). \<not> matches_digits_and_dots n \<or> is_IPv4 n"
  proof -
    from names_read_back [OF that, of env] obtain entries where
      "those (map (read_back_altName env) (map getAltName (as_array name))) = Some entries"
      by blast
    then obtain exts where "those (map (read_back_extension env) (extensions cert)) = Some exts"
      by (simp add: e read_back_extensions_cert)
    from certificateToPem_readable [OF this] p i show ?thesis by simp
  qed
  from 1 2 3 show ?thesis by blast
qed

text \<open>
  Claim C3 says that the issuer of every issued certificate is the subject of the issuing
  authority's certificate. \<^verbatim>\<open>authorize\<close> copies \<^verbatim>\<open>this._cert.issuer.attributes\<close>. An authority
  restored by \<^verbatim>\<open>from\<close> from a certificate with subject "Intermediate CA" and issuer
  "Upstream Root" issues a certificate whose issuer is "Upstream Root", which is not the
  authority's subject.
\<close>

theorem issuer_is_subject_counterexample:
  "from_root (Some root_intermediate) env_leaf [] = Inr (ca_intermediate, heap_intermediate) \<and>
   authorize ca_intermediate (OneName ''localhost'') no_options env_leaf heap_intermediate =
     Inr (issued_by_intermediate, heap_issued_by_intermediate) \<and>
   forge_certificateFromPem
     (Buffer_read heap_issued_by_intermediate (issued_cert issued_by_intermediate)) =
     Inr leaf_of_intermediate \<and>
   issuer leaf_of_intermediate =
     [\<lparr>attr_name = ''commonName'', attr_value = Some ''Upstream Root''\<rparr>] \<and>
   subject (this_cert ca_intermediate) =
     [\<lparr>attr_name = ''commonName'', attr_value = Some ''Intermediate CA''\<rparr>] \<and>
   issuer leaf_of_intermediate \<noteq> subject (this_cert ca_intermediate)"
proof -
  have 1: "forge_certificateFromPem
     (Buffer_read heap_issued_by_intermediate (issued_cert issued_by_intermediate)) =
     Inr leaf_of_intermediate"
    by (simp add: heap_issued_by_intermediate_def heap_intermediate_def
        issued_by_intermediate_def Buffer_read_def)
  have 2: "issuer leaf_of_intermediate =
     [\<lparr>attr_name = ''commonName'', attr_value = Some ''Upstream Root''\<rparr>]"
    by (simp add: leaf_of_intermediate_def)
  have 3: "subject (this_cert ca_intermediate) =
     [\<lparr>attr_name = ''commonName'', attr_value = Some ''Intermediate CA''\<rparr>]"
    by (simp add: ca_intermediate_def intermediate_cert_def)
  have 4: "issuer leaf_of_intermediate \<noteq> subject (this_cert ca_intermediate)"
    by (simp add: 2 3)
  from 1 2 3 4 from_intermediate authorize_intermediate show ?thesis by blast
qed

lemma from_fresh_root:
  assumes "createCA opts env h = Inr (root, h1)"
  shows "\<exists>key c0.
     c0 = \<lparr>publicKey = publicKey (this_cert root),
           serialNumber = read_back_serialNumber env (serialNumber (this_cert root)),
           notBefore = read_back_time env (notBefore (this_cert root)),
           notAfter = read_back_time env (notAfter (this_cert root)),
           subject = subject (this_cert root),
           issuer = issuer (this_cert root),
           extensions = defaultExtensionsRoot,
           signature = signature (this_cert root)\<rparr> \<and>
     extensions (this_cert root) = defaultExtensionsRoot \<and>
     serialNumber (this_cert root) = generateSerialNumber env \<and>
     issuer (this_cert root) = subject (this_cert root) \<and>
     h1 = h @ [PublicKeyPem \<lparr>pub_n = priv_n key, pub_e = priv_e key\<rparr>, PrivateKeyPem key,
               CertificatePem c0] \<and>
     this_keyPair root = \<lparr>kp_publicKey = length h, kp_privateKey = Suc (length h)\<rparr> \<and>
     this_pem root = Suc (Suc (length h)) \<and>
     from_root (Some \<lparr>root_ca = Buf (get_ca root), root_key = Buf (get_key root),
                      root_publicKey = Undefined, root_keyPair = None\<rparr>) env' h1 =
       Inr (\<lparr>this_keyPair = \<lparr>kp_publicKey = length h + 4, kp_privateKey = length h + 5\<rparr>,
              this_cert = c0, this_pem = length h + 6\<rparr>,
            h1 @ [PublicKeyPem \<lparr>pub_n = priv_n key, pub_e = priv_e key\<rparr>,
                  PublicKeyPem \<lparr>pub_n = priv_n key, pub_e = priv_e key\<rparr>,
                  PrivateKeyPem key, forge_certificateToPem env' c0])"
proof -
  from createCA_Inr [OF assms] obtain key where
    kp: "this_keyPair root = \<lparr>kp_publicKey = length h, kp_privateKey = Suc (length h)\<rparr>" and
    pem: "this_pem root = Suc (Suc (length h))" and
    h1: "h1 = h @ [PublicKeyPem \<lparr>pub_n = priv_n key, pub_e = priv_e key\<rparr>, PrivateKeyPem key,
                   forge_certificateToPem env (this_cert root)]" and
    c: "this_cert root = forge_sign env key
             \<lparr>publicKey = \<lparr>pub_n = priv_n key, pub_e = priv_e key\<rparr>,
              serialNumber = generateSerialNumber env,
              notBefore = new_Date (now_first env - 86400 * 1000),
              notAfter =
                new_Date (now_second env + or_number (opt_expiry opts) ROOT_NOT_AFTER * 1000),
              subject = defaultAttributes (Some (or_string (opt_name opts) ROOT_COMMON_NAME)),
              issuer = defaultAttributes (Some (or_string (opt_name opts) ROOT_COMMON_NAME)),
              extensions = defaultExtensionsRoot\<rparr>"
    by blast
  define c0 where "c0 =
          \<lparr>publicKey = publicKey (this_cert root),
           serialNumber = read_back_serialNumber env (serialNumber (this_cert root)),
           notBefore = read_back_time env (notBefore (this_cert root)),
           notAfter = read_back_time env (notAfter (this_cert root)),
           subject = subject (this_cert root),
           issuer = issuer (this_cert root),
           extensions = defaultExtensionsRoot,
           signature = signature (this_cert root)\<rparr>"
  have e: "extensions (this_cert root) = defaultExtensionsRoot"
    and s: "serialNumber (this_cert root) = generateSerialNumber env"
    and i: "issuer (this_cert root) = subject (this_cert root)"
    by (simp_all add: c)
  have "those (map (read_back_extension env) (extensions (this_cert root))) =
      Some defaultExtensionsRoot"
    by (simp add: e read_back_extensions_root)
  from certificateToPem_readable [OF this]
  have p: "forge_certificateToPem env (this_cert root) = CertificatePem c0"
    by (simp add: c0_def)
  have h1': "h1 = h @ [PublicKeyPem \<lparr>pub_n = priv_n key, pub_e = priv_e key\<rparr>, PrivateKeyPem key,
                   CertificatePem c0]"
    using h1 by (simp add: p)
  note f = from_written_root [OF h1' kp pem, of env']
  from c0_def e s i h1' kp pem f show ?thesis by blast
qed

text \<open>
  Claim C3, for an authority whose certificate has the same issuer as subject. The issuer
  of every certificate it issues is then its stored subject, as stored: it is the issuer of
  the certificate object that is written to the issued PEM, and of every certificate read
  back from that PEM; a certificate is read back when every name is a DNS name or an IPv4
  address (an issued PEM whose names forge writes in another way may not be readable).
  Every root that \<^verbatim>\<open>_createCA\<close> returns is such an authority, and so is the authority restored
  by \<^verbatim>\<open>from({ key, ca })\<close> from that root's accessors: it is restored, its subject and issuer
  are those of the root, and the issuer of every certificate it issues is the root's subject.
\<close>

theorem issuer_of_issued_certificate:
  "(issuer (this_cert this) = subject (this_cert this) \<and>
    authorize this name opts env h = Inr (r, h') \<longrightarrow>
      (\<exists>cert. Buffer_read h' (issued_cert r) = forge_certificateToPem env cert \<and>
         issuer cert = subject (this_cert this)) \<and>
      (\<forall>c. forge_certificateFromPem (Buffer_read h' (issued_cert r)) = Inr c \<longrightarrow>
         issuer c = subject (this_cert this)) \<and>
      ((\<forall>n\<in>set (as_array name). \<not> matches_digits_and_dots n \<or> is_IPv4 n) \<longrightarrow>
         (\<exists>c. forge_certificateFromPem (Buffer_read h' (issued_cert r)) = Inr c \<and>
            issuer c = subject (this_cert this)))) \<and>
   (createCA root_opts root_env g = Inr (root, g1) \<longrightarrow>
      issuer (this_cert root) = subject (this_cert root) \<and>
      (\<exists>clone g2.
         from_root (Some \<lparr>root_ca = Buf (get_ca root), root_key = Buf (get_key root),
                          root_publicKey = Undefined, root_keyPair = None\<rparr>) env' g1 =
           Inr (clone, g2) \<and>
         issuer (this_cert clone) = subject (this_cert clone) \<and>
         subject (this_cert clone) = subject (this_cert root) \<and>
         (\<forall>name2 opts2 env2 h2 r2 h2'.
            authorize clone name2 opts2 env2 h2 = Inr (r2, h2') \<longrightarrow>
              (\<exists>cert. Buffer_read h2' (issued_cert r2) = forge_certificateToPem env2 cert \<and>
                 issuer cert = subject (this_cert root)) \<and>
              (\<forall>c. forge_certificateFromPem (Buffer_read h2' (issued_cert r2)) = Inr c \<longrightarrow>
                 issuer c = subject (this_cert root)) \<and>
              ((\<forall>n\<in>set (as_array name2). \<not> matches_digits_and_dots n \<or> is_IPv4 n) \<longrightarrow>
                 (\<exists>c. forge_certificateFromPem (Buffer_read h2' (issued_cert r2)) = Inr c \<and>
                    issuer c = subject (this_cert root))))))"
proof (rule conjI; rule impI)
  assume a: "issuer (this_cert this) = subject (this_cert this) \<and>
    authorize this name opts env h = Inr (r, h')"
  then have "authorize this name opts env h = Inr (r, h')" by simp
  from authorize_copies_issuer [OF this] a
  show "(\<exists>cert. Buffer_read h' (issued_cert r) = forge_certificateToPem env cert \<and>
         issuer cert = subject (this_cert this)) \<and>
      (\<forall>c. forge_certificateFromPem (Buffer_read h' (issued_cert r)) = Inr c \<longrightarrow>
         issuer c = subject (this_cert this)) \<and>
      ((\<forall>n\<in>set (as_array name). \<not> matches_digits_and_dots n \<or> is_IPv4 n) \<longrightarrow>
         (\<exists>c. forge_certificateFromPem (Buffer_read h' (issued_cert r)) = Inr c \<and>
            issuer c = subject (this_cert this)))"
    by simp
next
  assume a: "createCA root_opts root_env g = Inr (root, g1)"
  from from_fresh_root [OF a, of env'] obtain clone g2 where
    s: "issuer (this_cert root) = subject (this_cert root)" and
    f: "from_root (Some \<lparr>root_ca = Buf (get_ca root), root_key = Buf (get_key root),
                      root_publicKey = Undefined, root_keyPair = None\<rparr>) env' g1 =
       Inr (clone, g2)" and
    ci: "issuer (this_cert clone) = issuer (this_cert root)" and
    cs: "subject (this_cert clone) = subject (this_cert root)"
    by force
  have x: "(\<exists>cert. Buffer_read h2' (issued_cert r2) = forge_certificateToPem env2 cert \<and>
                 issuer cert = subject (this_cert root)) \<and>
              (\<forall>c. forge_certificateFromPem (Buffer_read h2' (issued_cert r2)) = Inr c \<longrightarrow>
                 issuer c = subject (this_cert root)) \<and>
              ((\<forall>n\<in>set (as_array name2). \<not> matches_digits_and_dots n \<or> is_IPv4 n) \<longrightarrow>
                 (\<exists>c. forge_certificateFromPem (Buffer_read h2' (issued_cert r2)) = Inr c \<and>
                    issuer c = subject (this_cert root)))"
    if "authorize clone name2 opts2 env2 h2 = Inr (r2, h2')" for name2 opts2 env2 h2 r2 h2'
    using authorize_copies_issuer [OF that] ci s by simp
  from x f ci cs s have "\<exists>clone g2.
         from_root (Some \<lparr>root_ca = Buf (get_ca root), root_key = Buf (get_key root),
                          root_publicKey = Undefined, root_keyPair = None\<rparr>) env' g1 =
           Inr (clone, g2) \<and>
         issuer (this_cert clone) = subject (this_cert clone) \<and>
         subject (this_cert clone) = subject (this_cert root) \<and>
         (\<forall>name2 opts2 env2 h2 r2 h2'.
            authorize clone name2 opts2 env2 h2 = Inr (r2, h2') \<longrightarrow>
              (\<exists>cert. Buffer_read h2' (issued_cert r2) = forge_certificateToPem env2 cert \<and>
                 issuer cert = subject (this_cert root)) \<and>
              (\<forall>c. forge_certificateFromPem (Buffer_read h2' (issued_cert r2)) = Inr c \<longrightarrow>
                 issuer c = subject (this_cert root)) \<and>
              ((\<forall>n\<in>set (as_array name2). \<not> matches_digits_and_dots n \<or> is_IPv4 n) \<longrightarrow>
                 (\<exists>c. forge_certificateFromPem (Buffer_read h2' (issued_cert r2)) = Inr c \<and>
                    issuer c = subject (this_cert root))))"
    by (intro exI [of _ clone] exI [of _ g2]) simp
  with s show "issuer (this_cert root) = subject (this_cert root) \<and>
      (\<exists>clone g2.
         from_root (Some \<lparr>root_ca = Buf (get_ca root), root_key = Buf (get_key root),
                          root_publicKey = Undefined, root_keyPair = None\<rparr>) env' g1 =
           Inr (clone, g2) \<and>
         issuer (this_cert clone) = subject (this_cert clone) \<and>
         subject (this_cert clone) = subject (this_cert root) \<and>
         (\<forall>name2 opts2 env2 h2 r2 h2'.
            authorize clone name2 opts2 env2 h2 = Inr (r2, h2') \<longrightarrow>
              (\<exists>cert. Buffer_read h2' (issued_cert r2) = forge_certificateToPem env2 cert \<and>
                 issuer cert = subject (this_cert root)) \<and>
              (\<forall>c. forge_certificateFromPem (Buffer_read h2' (issued_cert r2)) = Inr c \<longrightarrow>
                 issuer c = subject (this_cert root)) \<and>
              ((\<forall>n\<in>set (as_array name2). \<not> matches_digits_and_dots n \<or> is_IPv4 n) \<longrightarrow>
                 (\<exists>c. forge_certificateFromPem (Buffer_read h2' (issued_cert r2)) = Inr c \<and>
                    issuer c = subject (this_cert root)))))"
    by (rule conjI)
qed

theorem issuer_of_issued_certificate_witness:
  "createCA no_options env_root [] = Inr (root_example, heap_example) \<and>
   issuer (this_cert root_example) = subject (this_cert root_example) \<and>
   subject (this_cert root_example) =
     [\<lparr>attr_name = ''commonName'', attr_value = Some ''Generic CA''\<rparr>] \<and>
   authorize root_example (ManyNames [''localhost'', ''127.0.0.1'']) no_options env_leaf
     heap_example = Inr (issued_example, heap_issued) \<and>
   (\<exists>c. forge_certificateFromPem (Buffer_read heap_issued (issued_cert issued_example)) = Inr c \<and>
      issuer c = [\<lparr>attr_name = ''commonName'', attr_value = Some ''Generic CA''\<rparr>]) \<and>
   (\<exists>clone g2.
      from_root (Some \<lparr>root_ca = Buf (get_ca root_example),
                       root_key = Buf (get_key root_example),
                       root_publicKey = Undefined, root_keyPair = None\<rparr>) env_leaf heap_example =
        Inr (clone, g2) \<and>
      issuer (this_cert clone) = [\<lparr>attr_name = ''commonName'', attr_value = Some ''Generic CA''\<rparr>])"
proof -
  have s: "subject (this_cert root_example) =
     [\<lparr>attr_name = ''commonName'', attr_value = Some ''Generic CA''\<rparr>]"
    by (simp add: root_example_def root_cert_example_def)
  have n: "\<forall>n\<in>set (as_array (ManyNames [''localhost'', ''127.0.0.1''])).
      \<not> matches_digits_and_dots n \<or> is_IPv4 n"
    by (simp add: matches_digits_and_dots_def is_digit_or_dot_def is_IPv4_def is_byte_def
        is_digit_def parseInt_def digit_value_def)
  note t = issuer_of_issued_certificate [of root_example
      "ManyNames [''localhost'', ''127.0.0.1'']" no_options env_leaf heap_example
      issued_example heap_issued no_options env_root "[]" root_example heap_example env_leaf]
  from t createCA_example have i: "issuer (this_cert root_example) = subject (this_cert root_example)"
    by blast
  from t i authorize_example n
  have c: "\<exists>c. forge_certificateFromPem (Buffer_read heap_issued (issued_cert issued_example)) =
             Inr c \<and> issuer c = subject (this_cert root_example)"
    by blast
  from t createCA_example
  have d: "\<exists>clone g2.
      from_root (Some \<lparr>root_ca = Buf (get_ca root_example),
                       root_key = Buf (get_key root_example),
                       root_publicKey = Undefined, root_keyPair = None\<rparr>) env_leaf heap_example =
        Inr (clone, g2) \<and>
      issuer (this_cert clone) = subject (this_cert clone) \<and>
      subject (this_cert clone) = subject (this_cert root_example)"
    by blast
  from s i c d createCA_example authorize_example show ?thesis by auto
qed

subsection \<open>Restoring a root from its own key and certificate\<close>



subsection \<open>Serial numbers\<close>

lemma hex_digit_value_bound: "is_hex_digit c \<Longrightarrow> hex_digit_value c < 16"
  by (auto simp: is_hex_digit_def hex_digit_value_def)

lemma foldl_hex_bound:
  "list_all is_hex_digit s \<Longrightarrow> acc < 16 ^ k \<Longrightarrow>
   foldl (\<lambda>acc c. 16 * acc + hex_digit_value c) acc s < 16 ^ (k + length s)"
proof (induction s arbitrary: acc k)
  case Nil then show ?case by simp
next
  case (Cons c s)
  have "hex_digit_value c < 16" using Cons.prems(1) by (simp add: hex_digit_value_bound)
  then have "16 * acc + hex_digit_value c < 16 ^ (Suc k)" using Cons.prems(2) by simp
  from Cons.IH[OF _ this] Cons.prems(1) show ?case by simp
qed

lemma hex_value_bound: "list_all is_hex_digit s \<Longrightarrow> hex_value s < 16 ^ length s"
  using foldl_hex_bound[of s 0 0] by (simp add: hex_value_def)

text \<open>
  Claim C5. Whenever \<^verbatim>\<open>crypto.randomUUID\<close> answers with a UUID, the serial number is the five
  groups of the UUID put together: 32 hexadecimal digits with no separator, a value below
  \<open>2 ^ 128\<close>. The generator reads nothing but the UUID drawn in this call and keeps no state;
  the randomness is that of \<^verbatim>\<open>crypto.randomUUID\<close>.
\<close>

theorem serial_number_format:
  assumes "is_uuid (randomUUID env)"
  shows "generateSerialNumber env =
           take 8 (randomUUID env) @ take 4 (drop 9 (randomUUID env)) @
           take 4 (drop 14 (randomUUID env)) @ take 4 (drop 19 (randomUUID env)) @
           drop 24 (randomUUID env)
         \<and> length (generateSerialNumber env) = 32
         \<and> list_all is_hex_digit (generateSerialNumber env)
         \<and> CHR ''-'' \<notin> set (generateSerialNumber env)
         \<and> hex_value (generateSerialNumber env) < 2 ^ 128
         \<and> (\<forall>env'. randomUUID env' = randomUUID env \<longrightarrow>
               generateSerialNumber env' = generateSerialNumber env)"
proof -
  define u where "u = randomUUID env"
  define s where
    "s = take 8 u @ take 4 (drop 9 u) @ take 4 (drop 14 u) @ take 4 (drop 19 u) @ drop 24 u"
  have uu: "is_uuid u" using assms by (simp add: u_def)
  then have len: "length u = 36" and g: "list_all is_hex_digit (take 8 u)"
    "list_all is_hex_digit (take 4 (drop 9 u))" "list_all is_hex_digit (take 4 (drop 14 u))"
    "list_all is_hex_digit (take 4 (drop 19 u))" "list_all is_hex_digit (drop 24 u)"
    by (simp_all add: is_uuid_def)
  have hx: "list_all is_hex_digit s" using g by (simp add: s_def)
  have "filter (\<lambda>c. c \<noteq> CHR ''-'') u =
        filter (\<lambda>c. c \<noteq> CHR ''-'') (take 8 u @ CHR ''-'' # take 4 (drop 9 u) @ CHR ''-'' #
          take 4 (drop 14 u) @ CHR ''-'' # take 4 (drop 19 u) @ CHR ''-'' # drop 24 u)"
    using uuid_groups[OF uu] by simp
  also have "\<dots> = s" using g by (simp add: filter_hex_digits s_def)
  finally have eq: "generateSerialNumber env = s" by (simp add: generateSerialNumber_def u_def)
  have l: "length s = 32" using len by (simp add: s_def)
  have nh: "CHR ''-'' \<notin> set s" using hx hex_digit_not_hyphen by (auto simp: list_all_iff)
  have "hex_value s < 16 ^ length s" using hx by (rule hex_value_bound)
  also have "(16::nat) ^ length s = 2 ^ 128" unfolding l by simp
  finally have v: "hex_value s < 2 ^ 128" .
  have "generateSerialNumber env = s \<and> length s = 32 \<and> list_all is_hex_digit s \<and>
        CHR ''-'' \<notin> set s \<and> hex_value s < 2 ^ 128"
    using eq l hx nh v by blast
  then have "generateSerialNumber env =
           take 8 (randomUUID env) @ take 4 (drop 9 (randomUUID env)) @
           take 4 (drop 14 (randomUUID env)) @ take 4 (drop 19 (randomUUID env)) @
           drop 24 (randomUUID env)
         \<and> length (generateSerialNumber env) = 32
         \<and> list_all is_hex_digit (generateSerialNumber env)
         \<and> CHR ''-'' \<notin> set (generateSerialNumber env)
         \<and> hex_value (generateSerialNumber env) < 2 ^ 128"
    unfolding eq unfolding s_def u_def .
  moreover have "\<forall>env'. randomUUID env' = randomUUID env \<longrightarrow>
               generateSerialNumber env' = generateSerialNumber env"
    by (simp add: generateSerialNumber_def)
  ultimately show ?thesis by blast
qed

theorem serial_number_format_witness:
  "is_uuid (randomUUID env_root) \<and>
   generateSerialNumber env_root = ''123e4567e89b42d3a456426614174000'' \<and>
   length (generateSerialNumber env_root) = 32 \<and>
   list_all is_hex_digit (generateSerialNumber env_root) \<and>
   CHR ''-'' \<notin> set (generateSerialNumber env_root) \<and>
   hex_value (generateSerialNumber env_root) < 2 ^ 128"
proof -
  have u: "is_uuid (randomUUID env_root)"
    by (simp add: env_root_def is_uuid_def is_hex_digit_def)
  have s: "generateSerialNumber env_root = ''123e4567e89b42d3a456426614174000''"
    by (simp add: env_root_def generateSerialNumber_def)
  from serial_number_format [OF u] u s show ?thesis by blast
qed

subsection \<open>The checks of from\<close>

text \<open>
  Claim C6. For every object passed to \<^verbatim>\<open>from\<close>: when \<^verbatim>\<open>ca\<close> is missing the call fails
  with "Missing certificate"; when \<^verbatim>\<open>ca\<close> is there and both \<^verbatim>\<open>keyPair\<close> and \<^verbatim>\<open>key\<close> are
  missing it fails with "Missing key pair or private key"; and these two errors have no
  other cause. When there is no \<^verbatim>\<open>keyPair\<close> and the call succeeds, a \<^verbatim>\<open>key\<close> was given, and
  the public key the authority stores is the \<^verbatim>\<open>publicKey\<close> given if there is one, and
  otherwise the one \<^verbatim>\<open>privateToPublicKey\<close> derives from \<^verbatim>\<open>key\<close>: the PEM of the public key
  with the modulus and exponent of the private key.
\<close>

theorem from_root_checks:
  "(\<not> truthy (root_ca r) \<longrightarrow>
      from_root (Some r) env h = Inl (Error ''Missing certificate'')) \<and>
   (truthy (root_ca r) \<and> root_keyPair r = None \<and> \<not> truthy (root_key r) \<longrightarrow>
      from_root (Some r) env h = Inl (Error ''Missing key pair or private key'')) \<and>
   (from_root (Some r) env h = Inl (Error ''Missing certificate'') \<longrightarrow>
      \<not> truthy (root_ca r)) \<and>
   (from_root (Some r) env h = Inl (Error ''Missing key pair or private key'') \<longrightarrow>
      truthy (root_ca r) \<and> root_keyPair r = None \<and> \<not> truthy (root_key r)) \<and>
   (root_keyPair r = None \<and> from_root (Some r) env h = Inr (ca, h') \<longrightarrow>
      truthy (root_ca r) \<and> truthy (root_key r) \<and>
      (if truthy (root_publicKey r)
       then Buffer_read h' (kp_publicKey (this_keyPair ca)) = toString h (root_publicKey r)
       else \<exists>pk derived h0.
              forge_privateKeyFromPem (toString h (root_key r)) = Inr pk \<and>
              privateToPublicKey (root_key r) h = Inr (derived, h0) \<and>
              Buffer_read h0 derived =
                forge_publicKeyToPem (forge_setPublicKey (priv_n pk) (priv_e pk)) \<and>
              Buffer_read h' (kp_publicKey (this_keyPair ca)) = Buffer_read h0 derived))"
proof (intro conjI impI)
  assume "\<not> truthy (root_ca r)"
  then show "from_root (Some r) env h = Inl (Error ''Missing certificate'')"
    by (simp add: from_root_def constructor_def loadCA_def)
next
  assume "truthy (root_ca r) \<and> root_keyPair r = None \<and> \<not> truthy (root_key r)"
  then show "from_root (Some r) env h = Inl (Error ''Missing key pair or private key'')"
    by (simp add: from_root_def constructor_def loadCA_def)
next
  assume a: "from_root (Some r) env h = Inl (Error ''Missing certificate'')"
  show "\<not> truthy (root_ca r)"
  proof
    assume "truthy (root_ca r)"
    with a show False
      by (auto simp add: from_root_def constructor_def loadCA_def forge_parse_errors
          Buffer_from_errors split: if_splits sum.splits prod.splits dest: toKeyPair_errors)
  qed
next
  assume a: "from_root (Some r) env h = Inl (Error ''Missing key pair or private key'')"
  have "\<not> (root_keyPair r = None \<and> \<not> truthy (root_key r)) \<Longrightarrow> False"
    using a
    by (auto simp add: from_root_def constructor_def loadCA_def forge_parse_errors
        Buffer_from_errors split: if_splits sum.splits prod.splits dest: toKeyPair_errors)
  moreover have "\<not> truthy (root_ca r) \<Longrightarrow> False"
    using a by (simp add: from_root_def constructor_def loadCA_def)
  ultimately show "truthy (root_ca r)" and "root_keyPair r = None" and "\<not> truthy (root_key r)"
    by blast+
next
  assume a: "root_keyPair r = None \<and> from_root (Some r) env h = Inr (ca, h')"
  then have l: "loadCA r env h = Inr (ca, h')" and n: "root_keyPair r = None"
    by (simp_all add: from_root_def constructor_def)
  from loadCA_Inr [OF l] obtain h1 cert where
    t: "truthy (root_ca r)" and k: "toKeyPair r h = Inr (this_keyPair ca, h1)" and
    h': "h' = h1 @ [forge_certificateToPem env cert]"
    by blast
  from toKeyPair_Inr [OF k] have lt: "kp_publicKey (this_keyPair ca) < length h1"
    by auto
  then have same: "Buffer_read h' (kp_publicKey (this_keyPair ca)) =
                   Buffer_read h1 (kp_publicKey (this_keyPair ca))"
    by (simp add: h' Buffer_read_def nth_append)
  from toKeyPair_publicKey [OF k n] have
    tk: "truthy (root_key r)" and
    pub: "if truthy (root_publicKey r)
          then Buffer_read h1 (kp_publicKey (this_keyPair ca)) = toString h (root_publicKey r)
          else \<exists>pk. forge_privateKeyFromPem (toString h (root_key r)) = Inr pk \<and>
                 Buffer_read h1 (kp_publicKey (this_keyPair ca)) =
                   forge_publicKeyToPem (forge_setPublicKey (priv_n pk) (priv_e pk))"
    by simp_all
  show "truthy (root_ca r)" by (rule t)
  show "truthy (root_key r)" by (rule tk)
  show "if truthy (root_publicKey r)
       then Buffer_read h' (kp_publicKey (this_keyPair ca)) = toString h (root_publicKey r)
       else \<exists>pk derived h0.
              forge_privateKeyFromPem (toString h (root_key r)) = Inr pk \<and>
              privateToPublicKey (root_key r) h = Inr (derived, h0) \<and>
              Buffer_read h0 derived =
                forge_publicKeyToPem (forge_setPublicKey (priv_n pk) (priv_e pk)) \<and>
              Buffer_read h' (kp_publicKey (this_keyPair ca)) = Buffer_read h0 derived"
  proof (cases "truthy (root_publicKey r)")
    case True
    with pub same show ?thesis by simp
  next
    case False
    with pub obtain pk where
      p: "forge_privateKeyFromPem (toString h (root_key r)) = Inr pk" and
      c: "Buffer_read h1 (kp_publicKey (this_keyPair ca)) =
            forge_publicKeyToPem (forge_setPublicKey (priv_n pk) (priv_e pk))"
      by auto
    let ?pem = "forge_publicKeyToPem (forge_setPublicKey (priv_n pk) (priv_e pk))"
    have d: "privateToPublicKey (root_key r) h = Inr (length h, h @ [?pem])"
      by (simp add: privateToPublicKey_def p)
    have e: "Buffer_read (h @ [?pem]) (length h) = ?pem"
      by (simp add: Buffer_read_def)
    from False p d e c same show ?thesis by auto
  qed
qed

theorem from_root_checks_witness:
  "\<not> truthy (root_ca root_only_key) \<and>
   from_root (Some root_only_key) env_leaf heap_example = Inl (Error ''Missing certificate'') \<and>
   truthy (root_ca root_only_ca) \<and> root_keyPair root_only_ca = None \<and>
   \<not> truthy (root_key root_only_ca) \<and>
   from_root (Some root_only_ca) env_leaf heap_example =
     Inl (Error ''Missing key pair or private key'') \<and>
   root_keyPair root_from_accessors = None \<and>
   from_root (Some root_from_accessors) env_leaf heap_example =
     Inr (clone_example, heap_clone) \<and>
   \<not> truthy (root_publicKey root_from_accessors) \<and>
   privateToPublicKey (root_key root_from_accessors) heap_example =
     Inr (3, heap_example @ [PublicKeyPem public_example]) \<and>
   Buffer_read heap_clone (kp_publicKey (this_keyPair clone_example)) =
     PublicKeyPem public_example \<and>
   truthy (root_publicKey root_with_publicKey) \<and>
   (\<exists>ca h'. from_root (Some root_with_publicKey) env_leaf heap_example = Inr (ca, h') \<and>
      Buffer_read h' (kp_publicKey (this_keyPair ca)) = PublicKeyPem public_leaf)"
proof -
  have 1: "\<not> truthy (root_ca root_only_key)"
    by (simp add: root_only_key_def)
  have 2: "truthy (root_ca root_only_ca) \<and> root_keyPair root_only_ca = None \<and>
           \<not> truthy (root_key root_only_ca)"
    by (simp add: root_only_ca_def)
  have 3: "root_keyPair root_from_accessors = None \<and>
           from_root (Some root_from_accessors) env_leaf heap_example =
             Inr (clone_example, heap_clone)"
    using from_example by (simp add: root_from_accessors_def)
  have 4: "from_root (Some root_with_publicKey) env_leaf heap_example =
             Inr (\<lparr>this_keyPair = \<lparr>kp_publicKey = 3, kp_privateKey = 4\<rparr>,
                    this_cert = root_cert_example, this_pem = 5\<rparr>,
                  heap_example @ [PublicKeyPem public_leaf, PrivateKeyPem key_example,
                    CertificatePem root_cert_example])"
    by (simp add: from_root_def constructor_def loadCA_def toKeyPair_def
        root_with_publicKey_def get_ca_def get_key_def root_example_def heap_example_def
        Buffer_read_def read_back_root_cert_example)
  have 5: "root_keyPair root_with_publicKey = None \<and> truthy (root_publicKey root_with_publicKey)"
    by (simp add: root_with_publicKey_def)
  have 6: "\<not> truthy (root_publicKey root_from_accessors)"
    by (simp add: root_from_accessors_def)
  have 7: "privateToPublicKey (root_key root_from_accessors) heap_example =
             Inr (3, heap_example @ [PublicKeyPem public_example])"
    by (simp add: privateToPublicKey_def root_from_accessors_def get_key_def root_example_def
        heap_example_def Buffer_read_def forge_publicKeyToPem_def forge_setPublicKey_def
        key_example_def public_example_def)
  have "\<exists>pk derived h0.
          forge_privateKeyFromPem (toString heap_example (root_key root_from_accessors)) = Inr pk \<and>
          privateToPublicKey (root_key root_from_accessors) heap_example = Inr (derived, h0) \<and>
          Buffer_read h0 derived =
            forge_publicKeyToPem (forge_setPublicKey (priv_n pk) (priv_e pk)) \<and>
          Buffer_read heap_clone (kp_publicKey (this_keyPair clone_example)) =
            Buffer_read h0 derived"
    using from_root_checks [of root_from_accessors env_leaf heap_example clone_example heap_clone]
      3 6
    by simp
  then obtain derived h0 where
    d: "privateToPublicKey (root_key root_from_accessors) heap_example = Inr (derived, h0)" and
    e: "Buffer_read heap_clone (kp_publicKey (this_keyPair clone_example)) =
          Buffer_read h0 derived"
    by blast
  from d 7 have "derived = 3" and "h0 = heap_example @ [PublicKeyPem public_example]"
    by simp_all
  then have "Buffer_read h0 derived = PublicKeyPem public_example"
    by (simp add: Buffer_read_def heap_example_def)
  with e have 8: "Buffer_read heap_clone (kp_publicKey (this_keyPair clone_example)) =
             PublicKeyPem public_example"
    by simp
  have 9: "toString heap_example (root_publicKey root_with_publicKey) = PublicKeyPem public_leaf"
    by (simp add: root_with_publicKey_def)
  from from_root_checks [of root_only_key env_leaf heap_example] 1
  have a: "from_root (Some root_only_key) env_leaf heap_example =
           Inl (Error ''Missing certificate'')"
    by blast
  from from_root_checks [of root_only_ca env_leaf heap_example] 2
  have b: "from_root (Some root_only_ca) env_leaf heap_example =
           Inl (Error ''Missing key pair or private key'')"
    by blast
  from from_root_checks [of root_with_publicKey env_leaf heap_example
      "\<lparr>this_keyPair = \<lparr>kp_publicKey = 3, kp_privateKey = 4\<rparr>,
         this_cert = root_cert_example, this_pem = 5\<rparr>"
      "heap_example @ [PublicKeyPem public_leaf, PrivateKeyPem key_example,
         CertificatePem root_cert_example]"] 4 5 9
  have c: "\<exists>ca h'. from_root (Some root_with_publicKey) env_leaf heap_example = Inr (ca, h') \<and>
      Buffer_read h' (kp_publicKey (this_keyPair ca)) = PublicKeyPem public_leaf"
    by auto
  from 1 2 3 5 6 7 8 a b c show ?thesis by blast
qed

subsection \<open>The names of an issued certificate\<close>

lemma issued_names_read_back:
  assumes "those (map (read_back_altName env) (map getAltName names)) = Some entries"
  shows "length entries = length names \<and>
     (\<forall>i<length names.
        (\<not> matches_digits_and_dots (names ! i) \<longrightarrow> entries ! i = TypeValue 2 (names ! i)) \<and>
        (is_IPv4 (names ! i) \<longrightarrow>
           entries ! i = TypeIp 7 (bytesToIP (map parseInt (split_dots (names ! i))))) \<and>
        (is_IPv4 (names ! i) \<and>
         (\<forall>part\<in>set (split_dots (names ! i)). part = ''0'' \<or> hd part \<noteq> CHR ''0'') \<longrightarrow>
           entries ! i = TypeIp 7 (names ! i)))"
proof -
  from those_map_Some [OF assms] have l: "length entries = length names" and
    n: "\<forall>i<length names. read_back_altName env (getAltName (names ! i)) = Some (entries ! i)"
    by simp_all
  have "(\<not> matches_digits_and_dots (names ! i) \<longrightarrow> entries ! i = TypeValue 2 (names ! i)) \<and>
        (is_IPv4 (names ! i) \<longrightarrow>
           entries ! i = TypeIp 7 (bytesToIP (map parseInt (split_dots (names ! i))))) \<and>
        (is_IPv4 (names ! i) \<and>
         (\<forall>part\<in>set (split_dots (names ! i)). part = ''0'' \<or> hd part \<noteq> CHR ''0'') \<longrightarrow>
           entries ! i = TypeIp 7 (names ! i))"
    if "i < length names" for i
  proof -
    from n that have r: "read_back_altName env (getAltName (names ! i)) = Some (entries ! i)"
      by simp
    have 1: "entries ! i = TypeValue 2 (names ! i)" if "\<not> matches_digits_and_dots (names ! i)"
      using r read_back_altName_names(1) [OF that, of env] by simp
    have 2: "entries ! i = TypeIp 7 (bytesToIP (map parseInt (split_dots (names ! i))))"
      if "is_IPv4 (names ! i)"
      using r read_back_altName_names(2) [OF that, of env] by simp
    have 3: "entries ! i = TypeIp 7 (names ! i)"
      if "is_IPv4 (names ! i)"
        and "\<forall>part\<in>set (split_dots (names ! i)). part = ''0'' \<or> hd part \<noteq> CHR ''0''"
      using 2 [OF that(1)] bytesToIP_literal [OF that] by simp
    from 1 2 3 show ?thesis by blast
  qed
  with l show ?thesis by blast
qed

text \<open>
  Claim C7 says that a name of digits and dots becomes an IP entry of the issued certificate
  with that literal value. The certificate holds an IP entry as the bytes of the address.
  \<^verbatim>\<open>authorize('1.2.3.04')\<close> succeeds, the name consists of digits and dots, and the
  certificate read back from the issued PEM has the IP entry 1.2.3.4, not 1.2.3.04.
\<close>

theorem issued_address_counterexample:
  "matches_digits_and_dots ''1.2.3.04'' \<and>
   getAltName ''1.2.3.04'' = TypeIp 7 ''1.2.3.04'' \<and>
   authorize root_example (OneName ''1.2.3.04'') options_minute env_leaf_clock heap_example =
     Inr (issued_quad, heap_quad) \<and>
   forge_certificateFromPem (Buffer_read heap_quad (issued_cert issued_quad)) =
     Inr cert_quad_read_back \<and>
   extensions cert_quad_read_back =
     [basicConstraints False,
      keyUsage False True False True True,
      extKeyUsage True True False False False,
      nsCertType True True False False False False False,
      subjectKeyIdentifier,
      subjectAltName [TypeIp 7 ''1.2.3.4'']] \<and>
   TypeIp 7 ''1.2.3.4'' \<noteq> TypeIp 7 ''1.2.3.04''"
proof -
  have 1: "matches_digits_and_dots ''1.2.3.04''"
    by (simp add: matches_digits_and_dots_def is_digit_or_dot_def)
  then have 2: "getAltName ''1.2.3.04'' = TypeIp 7 ''1.2.3.04''"
    by (simp add: getAltName_def ALTNAME_TYPE_IP_def)
  have 3: "forge_certificateFromPem (Buffer_read heap_quad (issued_cert issued_quad)) =
     Inr cert_quad_read_back"
    by (simp add: heap_quad_def heap_example_def issued_quad_def Buffer_read_def)
  have 4: "extensions cert_quad_read_back =
     [basicConstraints False,
      keyUsage False True False True True,
      extKeyUsage True True False False False,
      nsCertType True True False False False False False,
      subjectKeyIdentifier,
      subjectAltName [TypeIp 7 ''1.2.3.4'']]"
    by (simp add: cert_quad_read_back_def)
  have 5: "TypeIp 7 ''1.2.3.4'' \<noteq> TypeIp 7 ''1.2.3.04''" by simp
  from 1 2 3 4 5 authorize_quad show ?thesis by blast
qed

text \<open>
  Claim C7, as the code has it. When \<^verbatim>\<open>authorize\<close> returns for an array of names (a string
  counts as the array holding it), the certificate object that is written to the issued PEM
  has the first name as the \<^verbatim>\<open>commonName\<close> of its subject, and its \<^verbatim>\<open>subjectAltName\<close> lists
  one entry for each name, in the order of the names: the entry of type 7 with the name as
  \<^verbatim>\<open>ip\<close> when the name is not empty and consists of digits and dots only, and the entry of
  type 2 with the name as \<^verbatim>\<open>value\<close> otherwise. A certificate read back from the issued PEM
  has the same subject and one entry for each name, in the order of the names: for a name
  not of digits and dots only, the entry of type 2 with the name; for a name of four decimal
  numbers up to 255 separated by dots, the entry of type 7 with these four numbers in
  decimal, which is the name itself when no number is written with a leading zero. A
  certificate is read back when every name is of one of these two kinds.
\<close>

theorem authorize_names:
  assumes "authorize this name opts env h = Inr (r, h')"
  shows "\<exists>first rest cert.
           as_array name = first # rest \<and>
           Buffer_read h' (issued_cert r) = forge_certificateToPem env cert \<and>
           subject cert = [\<lparr>attr_name = ''commonName'', attr_value = Some first\<rparr>] \<and>
           extensions cert =
             [basicConstraints False,
              keyUsage False True False True True,
              extKeyUsage True True False False False,
              nsCertType True True False False False False False,
              subjectKeyIdentifier,
              subjectAltName (map getAltName (as_array name))] \<and>
           (\<forall>x. getAltName x =
              (if x \<noteq> [] \<and> (\<forall>ch \<in> set x. ch \<in> set ''0123456789.'') then TypeIp 7 x
               else TypeValue 2 x)) \<and>
           (\<forall>s. as_array (OneName s) = [s]) \<and>
           (\<forall>xs. as_array (ManyNames xs) = xs) \<and>
           (\<forall>c. forge_certificateFromPem (Buffer_read h' (issued_cert r)) = Inr c \<longrightarrow>
              subject c = [\<lparr>attr_name = ''commonName'', attr_value = Some first\<rparr>] \<and>
              (\<exists>entries.
                 extensions c =
                   [basicConstraints False,
                    keyUsage False True False True True,
                    extKeyUsage True True False False False,
                    nsCertType True True False False False False False,
                    subjectKeyIdentifier,
                    subjectAltName entries] \<and>
                 length entries = length (as_array name) \<and>
                 (\<forall>i<length (as_array name).
                    (\<not> matches_digits_and_dots (as_array name ! i) \<longrightarrow>
                       entries ! i = TypeValue 2 (as_array name ! i)) \<and>
                    (is_IPv4 (as_array name ! i) \<longrightarrow>
                       entries ! i =
                         TypeIp 7 (bytesToIP (map parseInt (split_dots (as_array name ! i))))) \<and>
                    (is_IPv4 (as_array name ! i) \<and>
                     (\<forall>part\<in>set (split_dots (as_array name ! i)).
                        part = ''0'' \<or> hd part \<noteq> CHR ''0'') \<longrightarrow>
                       entries ! i = TypeIp 7 (as_array name ! i))))) \<and>
           ((\<forall>n\<in>set (as_array name). \<not> matches_digits_and_dots n \<or> is_IPv4 n) \<longrightarrow>
              (\<exists>c. forge_certificateFromPem (Buffer_read h' (issued_cert r)) = Inr c))"
proof -
  from authorize_issued_certificate [OF assms] obtain key :: rsa_private
    and signing_key first where
    a: "as_array name = first # tl (as_array name)" and
    b: "Buffer_read h' (issued_cert r) =
             forge_certificateToPem env (forge_sign env signing_key
             \<lparr>publicKey = \<lparr>pub_n = priv_n key, pub_e = priv_e key\<rparr>,
              serialNumber = generateSerialNumber env,
              notBefore = new_Date (now_first env - 86400 * 1000),
              notAfter =
                new_Date (now_second env + or_number (opt_expiry opts) CERT_NOT_AFTER * 1000),
              subject = defaultAttributes (Some first),
              issuer = issuer (this_cert this),
              extensions = defaultExtensionsCert (as_array name)\<rparr>)"
    by blast
  define cert where "cert = forge_sign env signing_key
             \<lparr>publicKey = \<lparr>pub_n = priv_n key, pub_e = priv_e key\<rparr>,
              serialNumber = generateSerialNumber env,
              notBefore = new_Date (now_first env - 86400 * 1000),
              notAfter =
                new_Date (now_second env + or_number (opt_expiry opts) CERT_NOT_AFTER * 1000),
              subject = defaultAttributes (Some first),
              issuer = issuer (this_cert this),
              extensions = defaultExtensionsCert (as_array name)\<rparr>"
  have 1: "Buffer_read h' (issued_cert r) = forge_certificateToPem env cert"
    using b by (simp add: cert_def)
  have 2: "subject cert = [\<lparr>attr_name = ''commonName'', attr_value = Some first\<rparr>]"
    by (simp add: cert_def defaultAttributes_def)
  have e: "extensions cert = defaultExtensionsCert (as_array name)"
    by (simp add: cert_def)
  have 3: "extensions cert =
             [basicConstraints False,
              keyUsage False True False True True,
              extKeyUsage True True False False False,
              nsCertType True True False False False False False,
              subjectKeyIdentifier,
              subjectAltName (map getAltName (as_array name))]"
    by (simp add: e defaultExtensionsCert_def)
  have 4: "\<forall>x. getAltName x =
              (if x \<noteq> [] \<and> (\<forall>ch \<in> set x. ch \<in> set ''0123456789.'') then TypeIp 7 x
               else TypeValue 2 x)"
    using getAltName_rule by blast
  have 5: "\<forall>s. as_array (OneName s) = [s]" "\<forall>xs. as_array (ManyNames xs) = xs"
    by simp_all
  have 6: "subject c = [\<lparr>attr_name = ''commonName'', attr_value = Some first\<rparr>] \<and>
              (\<exists>entries.
                 extensions c =
                   [basicConstraints False,
                    keyUsage False True False True True,
                    extKeyUsage True True False False False,
                    nsCertType True True False False False False False,
                    subjectKeyIdentifier,
                    subjectAltName entries] \<and>
                 length entries = length (as_array name) \<and>
                 (\<forall>i<length (as_array name).
                    (\<not> matches_digits_and_dots (as_array name ! i) \<longrightarrow>
                       entries ! i = TypeValue 2 (as_array name ! i)) \<and>
                    (is_IPv4 (as_array name ! i) \<longrightarrow>
                       entries ! i =
                         TypeIp 7 (bytesToIP (map parseInt (split_dots (as_array name ! i))))) \<and>
                    (is_IPv4 (as_array name ! i) \<and>
                     (\<forall>part\<in>set (split_dots (as_array name ! i)).
                        part = ''0'' \<or> hd part \<noteq> CHR ''0'') \<longrightarrow>
                       entries ! i = TypeIp 7 (as_array name ! i))))"
    if "forge_certificateFromPem (Buffer_read h' (issued_cert r)) = Inr c" for c
  proof -
    from that 1 have "forge_certificateFromPem (forge_certificateToPem env cert) = Inr c"
      by simp
    from certificateFromPem_ToPem [OF this] obtain exts where
      x: "those (map (read_back_extension env) (extensions cert)) = Some exts" and
      s: "subject c = subject cert" and ec: "extensions c = exts"
      by auto
    from x obtain entries where
      n: "those (map (read_back_altName env) (map getAltName (as_array name))) = Some entries"
      and exts: "exts =
                   [basicConstraints False,
                    keyUsage False True False True True,
                    extKeyUsage True True False False False,
                    nsCertType True True False False False False False,
                    subjectKeyIdentifier,
                    subjectAltName entries]"
      by (auto simp add: e read_back_extensions_cert)
    note q = issued_names_read_back [OF n]
    note q1 = q [THEN conjunct1] and q2 = q [THEN conjunct2]
    have sc: "subject c = [\<lparr>attr_name = ''commonName'', attr_value = Some first\<rparr>]"
      using s 2 by simp
    have xc: "extensions c =
                   [basicConstraints False,
                    keyUsage False True False True True,
                    extKeyUsage True True False False False,
                    nsCertType True True False False False False False,
                    subjectKeyIdentifier,
                    subjectAltName entries]"
      using ec exts by simp
    from xc q1 q2 have "\<exists>entries.
                 extensions c =
                   [basicConstraints False,
                    keyUsage False True False True True,
                    extKeyUsage True True False False False,
                    nsCertType True True False False False False False,
                    subjectKeyIdentifier,
                    subjectAltName entries] \<and>
                 length entries = length (as_array name) \<and>
                 (\<forall>i<length (as_array name).
                    (\<not> matches_digits_and_dots (as_array name ! i) \<longrightarrow>
                       entries ! i = TypeValue 2 (as_array name ! i)) \<and>
                    (is_IPv4 (as_array name ! i) \<longrightarrow>
                       entries ! i =
                         TypeIp 7 (bytesToIP (map parseInt (split_dots (as_array name ! i))))) \<and>
                    (is_IPv4 (as_array name ! i) \<and>
                     (\<forall>part\<in>set (split_dots (as_array name ! i)).
                        part = ''0'' \<or> hd part \<noteq> CHR ''0'') \<longrightarrow>
                       entries ! i = TypeIp 7 (as_array name ! i)))"
      by (intro exI conjI)
    with sc show ?thesis by (rule conjI)
  qed
  have 7: "\<exists>c. forge_certificateFromPem (Buffer_read h' (issued_cert r)) = Inr c"
    if "\<forall>n\<in>set (as_array name). \<not> matches_digits_and_dots n \<or> is_IPv4 n"
  proof -
    from names_read_back [OF that, of env] obtain entries where
      "those (map (read_back_altName env) (map getAltName (as_array name))) = Some entries"
      by blast
    then obtain exts where "those (map (read_back_extension env) (extensions cert)) = Some exts"
      by (simp add: e read_back_extensions_cert)
    from certificateToPem_readable [OF this] 1 show ?thesis by simp
  qed
  have 8: "\<forall>c. forge_certificateFromPem (Buffer_read h' (issued_cert r)) = Inr c \<longrightarrow>
              subject c = [\<lparr>attr_name = ''commonName'', attr_value = Some first\<rparr>] \<and>
              (\<exists>entries.
                 extensions c =
                   [basicConstraints False,
                    keyUsage False True False True True,
                    extKeyUsage True True False False False,
                    nsCertType True True False False False False False,
                    subjectKeyIdentifier,
                    subjectAltName entries] \<and>
                 length entries = length (as_array name) \<and>
                 (\<forall>i<length (as_array name).
                    (\<not> matches_digits_and_dots (as_array name ! i) \<longrightarrow>
                       entries ! i = TypeValue 2 (as_array name ! i)) \<and>
                    (is_IPv4 (as_array name ! i) \<longrightarrow>
                       entries ! i =
                         TypeIp 7 (bytesToIP (map parseInt (split_dots (as_array name ! i))))) \<and>
                    (is_IPv4 (as_array name ! i) \<and>
                     (\<forall>part\<in>set (split_dots (as_array name ! i)).
                        part = ''0'' \<or> hd part \<noteq> CHR ''0'') \<longrightarrow>
                       entries ! i = TypeIp 7 (as_array name ! i))))"
    by (intro allI impI) (rule 6)
  have 9: "(\<forall>n\<in>set (as_array name). \<not> matches_digits_and_dots n \<or> is_IPv4 n) \<longrightarrow>
              (\<exists>c. forge_certificateFromPem (Buffer_read h' (issued_cert r)) = Inr c)"
    by (intro impI) (rule 7)
  from a 1 2 3 4 5 8 9 show ?thesis by (intro exI conjI)
qed

theorem authorize_names_witness:
  "authorize root_example (ManyNames [''localhost'', ''127.0.0.1'']) no_options env_leaf
     heap_example = Inr (issued_example, heap_issued) \<and>
   \<not> matches_digits_and_dots ''localhost'' \<and> is_IPv4 ''127.0.0.1'' \<and>
   (\<exists>c entries.
      forge_certificateFromPem (Buffer_read heap_issued (issued_cert issued_example)) = Inr c \<and>
      subject c = [\<lparr>attr_name = ''commonName'', attr_value = Some ''localhost''\<rparr>] \<and>
      extensions c =
        [basicConstraints False,
         keyUsage False True False True True,
         extKeyUsage True True False False False,
         nsCertType True True False False False False False,
         subjectKeyIdentifier,
         subjectAltName entries] \<and>
      length entries = 2 \<and>
      entries ! 0 = TypeValue 2 ''localhost'' \<and>
      entries ! 1 = TypeIp 7 ''127.0.0.1'')"
proof -
  have m: "\<not> matches_digits_and_dots ''localhost''"
    by (simp add: matches_digits_and_dots_def is_digit_or_dot_def)
  have ip: "is_IPv4 ''127.0.0.1''"
    by (simp add: is_IPv4_def is_byte_def is_digit_def parseInt_def digit_value_def)
  have canonical: "\<forall>part\<in>set (split_dots ''127.0.0.1''). part = ''0'' \<or> hd part \<noteq> CHR ''0''"
    by simp
  have names: "\<forall>n\<in>set (as_array (ManyNames [''localhost'', ''127.0.0.1''])).
      \<not> matches_digits_and_dots n \<or> is_IPv4 n"
    using m ip by simp
  from authorize_names [OF authorize_example] obtain first rest where
    2: "as_array (ManyNames [''localhost'', ''127.0.0.1'']) = first # rest"
    and 3: "\<forall>c. forge_certificateFromPem (Buffer_read heap_issued (issued_cert issued_example)) =
                Inr c \<longrightarrow>
              subject c = [\<lparr>attr_name = ''commonName'', attr_value = Some first\<rparr>] \<and>
              (\<exists>entries.
                 extensions c =
                   [basicConstraints False,
                    keyUsage False True False True True,
                    extKeyUsage True True False False False,
                    nsCertType True True False False False False False,
                    subjectKeyIdentifier,
                    subjectAltName entries] \<and>
                 length entries = length (as_array (ManyNames [''localhost'', ''127.0.0.1''])) \<and>
                 (\<forall>i<length (as_array (ManyNames [''localhost'', ''127.0.0.1''])).
                    (\<not> matches_digits_and_dots
                         (as_array (ManyNames [''localhost'', ''127.0.0.1'']) ! i) \<longrightarrow>
                       entries ! i =
                         TypeValue 2 (as_array (ManyNames [''localhost'', ''127.0.0.1'']) ! i)) \<and>
                    (is_IPv4 (as_array (ManyNames [''localhost'', ''127.0.0.1'']) ! i) \<longrightarrow>
                       entries ! i =
                         TypeIp 7 (bytesToIP (map parseInt (split_dots
                           (as_array (ManyNames [''localhost'', ''127.0.0.1'']) ! i))))) \<and>
                    (is_IPv4 (as_array (ManyNames [''localhost'', ''127.0.0.1'']) ! i) \<and>
                     (\<forall>part\<in>set (split_dots
                          (as_array (ManyNames [''localhost'', ''127.0.0.1'']) ! i)).
                        part = ''0'' \<or> hd part \<noteq> CHR ''0'') \<longrightarrow>
                       entries ! i =
                         TypeIp 7 (as_array (ManyNames [''localhost'', ''127.0.0.1'']) ! i))))"
    and 4: "(\<forall>n\<in>set (as_array (ManyNames [''localhost'', ''127.0.0.1''])).
               \<not> matches_digits_and_dots n \<or> is_IPv4 n) \<longrightarrow>
              (\<exists>c. forge_certificateFromPem
                 (Buffer_read heap_issued (issued_cert issued_example)) = Inr c)"
    by blast
  from 2 have f: "first = ''localhost''" by simp
  from 4 names obtain c where
    c: "forge_certificateFromPem (Buffer_read heap_issued (issued_cert issued_example)) = Inr c"
    by blast
  from 3 c f obtain entries where
    s: "subject c = [\<lparr>attr_name = ''commonName'', attr_value = Some ''localhost''\<rparr>]" and
    e: "extensions c =
                   [basicConstraints False,
                    keyUsage False True False True True,
                    extKeyUsage True True False False False,
                    nsCertType True True False False False False False,
                    subjectKeyIdentifier,
                    subjectAltName entries]" and
    l: "length entries = length (as_array (ManyNames [''localhost'', ''127.0.0.1'']))" and
    n: "\<forall>i<length (as_array (ManyNames [''localhost'', ''127.0.0.1''])).
                    (\<not> matches_digits_and_dots
                         (as_array (ManyNames [''localhost'', ''127.0.0.1'']) ! i) \<longrightarrow>
                       entries ! i =
                         TypeValue 2 (as_array (ManyNames [''localhost'', ''127.0.0.1'']) ! i)) \<and>
                    (is_IPv4 (as_array (ManyNames [''localhost'', ''127.0.0.1'']) ! i) \<and>
                     (\<forall>part\<in>set (split_dots
                          (as_array (ManyNames [''localhost'', ''127.0.0.1'']) ! i)).
                        part = ''0'' \<or> hd part \<noteq> CHR ''0'') \<longrightarrow>
                       entries ! i =
                         TypeIp 7 (as_array (ManyNames [''localhost'', ''127.0.0.1'']) ! i))"
    by blast
  from l have l2: "length entries = 2" by simp
  from n [rule_format, of 0] m have e0: "entries ! 0 = TypeValue 2 ''localhost''" by simp
  from n [rule_format, of 1] ip canonical have e1: "entries ! 1 = TypeIp 7 ''127.0.0.1''"
    by simp
  from c s e l2 e0 e1 have "\<exists>c entries.
      forge_certificateFromPem (Buffer_read heap_issued (issued_cert issued_example)) = Inr c \<and>
      subject c = [\<lparr>attr_name = ''commonName'', attr_value = Some ''localhost''\<rparr>] \<and>
      extensions c =
        [basicConstraints False,
         keyUsage False True False True True,
         extKeyUsage True True False False False,
         nsCertType True True False False False False False,
         subjectKeyIdentifier,
         subjectAltName entries] \<and>
      length entries = 2 \<and>
      entries ! 0 = TypeValue 2 ''localhost'' \<and>
      entries ! 1 = TypeIp 7 ''127.0.0.1''"
    by (intro exI conjI)
  with authorize_example m ip show ?thesis by (intro conjI)
qed

subsection \<open>Validity\<close>













subsection \<open>The root certificate\<close>

lemma or_string_falsy:
  "a \<in> {Absent, JsNull, JsFalse, JsNaN, JsBigIntZero, JsEmptyString, Given []} \<Longrightarrow>
     or_string a b = b"
  by (auto simp add: or_string_def)

text \<open>
  Claim C9. A root that \<^verbatim>\<open>_createCA\<close> returns has, as subject and as issuer, the single
  attribute \<^verbatim>\<open>commonName\<close> with the name from the options when that is a string that is not
  empty, and with "Generic CA" when the options give no name or a falsy one; its signature
  is made with the private key of the authority's own key pair over the fields of the
  certificate and verifies under the public key it certifies, which is the public half of
  that key pair; its extensions are exactly the five of \<^verbatim>\<open>defaultExtensionsRoot\<close> with every
  flag set, in the order basicConstraints, keyUsage, extKeyUsage, nsCertType,
  subjectKeyIdentifier, and no subjectAltName; the accessor \<^verbatim>\<open>ca\<close> holds its PEM, and the
  certificate read back from that PEM has the same subject, issuer, extensions, public key
  and signature.
\<close>

theorem root_certificate:
  assumes "createCA opts env h = Inr (ca, h')"
  shows "(opt_name opts \<in> {Absent, JsNull, JsFalse, JsNaN, JsBigIntZero, JsEmptyString, Given []} \<longrightarrow>
            subject (this_cert ca) =
              [\<lparr>attr_name = ''commonName'', attr_value = Some ''Generic CA''\<rparr>]) \<and>
         (\<forall>v. opt_name opts = Given v \<and> v \<noteq> [] \<longrightarrow>
            subject (this_cert ca) = [\<lparr>attr_name = ''commonName'', attr_value = Some v\<rparr>]) \<and>
         issuer (this_cert ca) = subject (this_cert ca) \<and>
         forge_verify env (publicKey (this_cert ca)) (this_cert ca) \<and>
         (\<exists>key. Buffer_read h' (get_key ca) = forge_privateKeyToPem key \<and>
            signature (this_cert ca) =
              RSA_SHA256 key (forge_toDer env (tbsCertificate.truncate (this_cert ca))) \<and>
            publicKey (this_cert ca) = forge_setPublicKey (priv_n key) (priv_e key)) \<and>
         Buffer_read h' (kp_publicKey (this_keyPair ca)) =
           forge_publicKeyToPem (publicKey (this_cert ca)) \<and>
         extensions (this_cert ca) =
           [basicConstraints True,
            keyUsage True True True True True,
            extKeyUsage True True True True True,
            nsCertType True True True True True True True,
            subjectKeyIdentifier] \<and>
         (\<forall>alt. subjectAltName alt \<notin> set (extensions (this_cert ca))) \<and>
         Buffer_read h' (get_ca ca) = forge_certificateToPem env (this_cert ca) \<and>
         (\<exists>c. forge_certificateFromPem (Buffer_read h' (get_ca ca)) = Inr c \<and>
            subject c = subject (this_cert ca) \<and> issuer c = issuer (this_cert ca) \<and>
            extensions c = extensions (this_cert ca) \<and>
            publicKey c = publicKey (this_cert ca) \<and>
            signature c = signature (this_cert ca))"
proof -
  define n where "n = or_string (opt_name opts) ROOT_COMMON_NAME"
  from createCA_Inr [OF assms] obtain key where
    kp: "this_keyPair ca = \<lparr>kp_publicKey = length h, kp_privateKey = Suc (length h)\<rparr>" and
    pem: "this_pem ca = Suc (Suc (length h))" and
    h': "h' = h @ [PublicKeyPem \<lparr>pub_n = priv_n key, pub_e = priv_e key\<rparr>, PrivateKeyPem key,
                     forge_certificateToPem env (this_cert ca)]" and
    cert: "this_cert ca = forge_sign env key
             \<lparr>publicKey = \<lparr>pub_n = priv_n key, pub_e = priv_e key\<rparr>,
              serialNumber = generateSerialNumber env,
              notBefore = new_Date (now_first env - 86400 * 1000),
              notAfter =
                new_Date (now_second env + or_number (opt_expiry opts) ROOT_NOT_AFTER * 1000),
              subject = defaultAttributes (Some n),
              issuer = defaultAttributes (Some n),
              extensions = defaultExtensionsRoot\<rparr>"
    unfolding n_def by blast
  have s: "subject (this_cert ca) = [\<lparr>attr_name = ''commonName'', attr_value = Some n\<rparr>]"
    by (simp add: cert defaultAttributes_def)
  have 1: "opt_name opts \<in> {Absent, JsNull, JsFalse, JsNaN, JsBigIntZero, JsEmptyString, Given []} \<longrightarrow>
            subject (this_cert ca) =
              [\<lparr>attr_name = ''commonName'', attr_value = Some ''Generic CA''\<rparr>]"
    unfolding s n_def by (intro impI) (simp only: or_string_falsy ROOT_COMMON_NAME_def)
  have 2: "\<forall>v. opt_name opts = Given v \<and> v \<noteq> [] \<longrightarrow>
            subject (this_cert ca) = [\<lparr>attr_name = ''commonName'', attr_value = Some v\<rparr>]"
    unfolding s n_def by (intro allI impI) (simp add: or_string_def)
  have 3: "issuer (this_cert ca) = subject (this_cert ca)"
    by (simp add: cert)
  have 4: "forge_verify env (publicKey (this_cert ca)) (this_cert ca)"
    by (simp add: cert forge_setPublicKey_def)
  have 5: "Buffer_read h' (get_key ca) = forge_privateKeyToPem key \<and>
            signature (this_cert ca) =
              RSA_SHA256 key (forge_toDer env (tbsCertificate.truncate (this_cert ca))) \<and>
            publicKey (this_cert ca) = forge_setPublicKey (priv_n key) (priv_e key)"
    by (simp add: get_key_def kp h' Buffer_read_def nth_append forge_privateKeyToPem_def)
      (simp add: cert forge_setPublicKey_def)
  have 6: "Buffer_read h' (kp_publicKey (this_keyPair ca)) =
           forge_publicKeyToPem (publicKey (this_cert ca))"
    by (simp add: kp h' Buffer_read_def forge_publicKeyToPem_def) (simp add: cert)
  have 7: "extensions (this_cert ca) =
           [basicConstraints True,
            keyUsage True True True True True,
            extKeyUsage True True True True True,
            nsCertType True True True True True True True,
            subjectKeyIdentifier]"
    by (simp add: cert defaultExtensionsRoot_def)
  have 8: "\<forall>alt. subjectAltName alt \<notin> set (extensions (this_cert ca))"
    by (simp add: 7)
  have 9: "Buffer_read h' (get_ca ca) = forge_certificateToPem env (this_cert ca)"
    by (simp add: get_ca_def pem h' Buffer_read_def nth_append)
  have "those (map (read_back_extension env) (extensions (this_cert ca))) =
      Some (extensions (this_cert ca))"
    using read_back_extensions_root [of env] by (simp add: 7 defaultExtensionsRoot_def)
  from certificateToPem_readable [OF this]
  have 10: "\<exists>c. forge_certificateFromPem (Buffer_read h' (get_ca ca)) = Inr c \<and>
            subject c = subject (this_cert ca) \<and> issuer c = issuer (this_cert ca) \<and>
            extensions c = extensions (this_cert ca) \<and>
            publicKey c = publicKey (this_cert ca) \<and>
            signature c = signature (this_cert ca)"
    by (simp add: 9)
  from 5 have 11: "\<exists>key. Buffer_read h' (get_key ca) = forge_privateKeyToPem key \<and>
            signature (this_cert ca) =
              RSA_SHA256 key (forge_toDer env (tbsCertificate.truncate (this_cert ca))) \<and>
            publicKey (this_cert ca) = forge_setPublicKey (priv_n key) (priv_e key)"
    by (rule exI)
  from 1 2 3 4 11 6 7 8 9 10 show ?thesis by (intro conjI)
qed

theorem root_certificate_witness:
  "createCA options_my_ca env_clock [] = Inr (root_my_ca, heap_my_ca) \<and>
   opt_name options_my_ca = Given ''My CA'' \<and>
   subject (this_cert root_my_ca) =
     [\<lparr>attr_name = ''commonName'', attr_value = Some ''My CA''\<rparr>] \<and>
   issuer (this_cert root_my_ca) = [\<lparr>attr_name = ''commonName'', attr_value = Some ''My CA''\<rparr>] \<and>
   forge_verify env_clock (publicKey (this_cert root_my_ca)) (this_cert root_my_ca) \<and>
   \<not> forge_verify env_clock public_leaf (this_cert root_my_ca) \<and>
   publicKey (this_cert root_my_ca) = public_example \<and>
   Buffer_read heap_my_ca (get_key root_my_ca) = PrivateKeyPem key_example \<and>
   Buffer_read heap_my_ca (kp_publicKey (this_keyPair root_my_ca)) =
     PublicKeyPem public_example \<and>
   extensions (this_cert root_my_ca) =
     [basicConstraints True,
      keyUsage True True True True True,
      extKeyUsage True True True True True,
      nsCertType True True True True True True True,
      subjectKeyIdentifier] \<and>
   forge_certificateFromPem (Buffer_read heap_my_ca (get_ca root_my_ca)) =
     Inr cert_my_ca_read_back \<and>
   subject cert_my_ca_read_back =
     [\<lparr>attr_name = ''commonName'', attr_value = Some ''My CA''\<rparr>] \<and>
   createCA no_options env_root [] = Inr (root_example, heap_example) \<and>
   opt_name no_options = Absent \<and>
   subject (this_cert root_example) =
     [\<lparr>attr_name = ''commonName'', attr_value = Some ''Generic CA''\<rparr>] \<and>
   issuer (this_cert root_example) =
     [\<lparr>attr_name = ''commonName'', attr_value = Some ''Generic CA''\<rparr>]"
proof -
  note t1 = root_certificate [OF createCA_my_ca]
  note t2 = root_certificate [OF createCA_example]
  have o: "opt_name options_my_ca = Given ''My CA''" "opt_name no_options = Absent"
    by (simp_all add: options_my_ca_def no_options_def)
  from t1 o(1) have s1: "subject (this_cert root_my_ca) =
     [\<lparr>attr_name = ''commonName'', attr_value = Some ''My CA''\<rparr>]"
    by simp
  from t1 s1 have i1: "issuer (this_cert root_my_ca) =
     [\<lparr>attr_name = ''commonName'', attr_value = Some ''My CA''\<rparr>]"
    by simp
  from t1 have v: "forge_verify env_clock (publicKey (this_cert root_my_ca)) (this_cert root_my_ca)"
    by (elim conjE)
  have w: "\<not> forge_verify env_clock public_leaf (this_cert root_my_ca)"
    by (simp add: root_my_ca_def cert_my_ca_def forge_setPublicKey_def key_example_def
        public_leaf_def)
  from t1 have x: "extensions (this_cert root_my_ca) =
     [basicConstraints True,
      keyUsage True True True True True,
      extKeyUsage True True True True True,
      nsCertType True True True True True True True,
      subjectKeyIdentifier]"
    by (elim conjE)
  have k: "publicKey (this_cert root_my_ca) = public_example"
    "Buffer_read heap_my_ca (get_key root_my_ca) = PrivateKeyPem key_example"
    "Buffer_read heap_my_ca (kp_publicKey (this_keyPair root_my_ca)) =
     PublicKeyPem public_example"
    by (simp_all add: root_my_ca_def cert_my_ca_def fields_my_ca_def heap_my_ca_def get_key_def
        Buffer_read_def)
  have p: "forge_certificateFromPem (Buffer_read heap_my_ca (get_ca root_my_ca)) =
     Inr cert_my_ca_read_back"
    by (simp add: heap_my_ca_def get_ca_def root_my_ca_def Buffer_read_def)
  from t1 p s1 have r: "subject cert_my_ca_read_back =
     [\<lparr>attr_name = ''commonName'', attr_value = Some ''My CA''\<rparr>]"
    by auto
  from t2 o(2) have s2: "subject (this_cert root_example) =
     [\<lparr>attr_name = ''commonName'', attr_value = Some ''Generic CA''\<rparr>]"
    by simp
  from t2 s2 have i2: "issuer (this_cert root_example) =
     [\<lparr>attr_name = ''commonName'', attr_value = Some ''Generic CA''\<rparr>]"
    by simp
  from createCA_my_ca o(1) s1 i1 v w k x p r createCA_example o(2) s2 i2
  show ?thesis by (intro conjI)
qed

subsection \<open>Falsy options\<close>





end
